theory Spec2Isabelle
  imports Main "HOL-Library.Sublist"
begin

section \<open>Types of the GraphQL layer\<close>

text \<open>
  The values that a field annotation or a resolved field type can take.
  \<open>StrawberryOptional\<close> and \<open>StrawberryList\<close> are the two \<open>StrawberryContainer\<close>
  classes; \<open>LazyType t\<close> is a lazy reference whose \<open>resolve_type()\<close> gives \<open>t\<close>;
  \<open>PrivateT t\<close> is a private annotation;
  \<open>Plain n\<close> is a Python class without an object definition (\<open>int\<close>, \<open>str\<close>,
  \<open>bool\<close>, \<open>ID\<close>); \<open>ObjectType n dj conn\<close> is a class with an object definition,
  \<open>dj\<close> telling whether it carries \<open>__strawberry_django_definition__\<close> and
  \<open>conn\<close> being \<open>Some (a, b, c)\<close> when the class is a subclass of
  \<open>relay.Connection\<close>, with the \<open>NodeType\<close> entries of the three type-variable
  maps that \<open>django_type\<close> consults, in the order it consults them.
\<close>

datatype stype =
    StrawberryAuto
  | AnyT
  | SelfT
  | Plain string
  | StrawberryOptional stype
  | StrawberryList stype
  | LazyType stype
  | StrawberryUnion "stype list"
  | PrivateT stype
  | ObjectType string bool "(stype option \<times> stype option \<times> stype option) option"

text \<open>\<open>utils/typing.py\<close>, \<open>unwrap_type\<close>: strip lazy references and containers.\<close>

fun unwrap_type :: "stype \<Rightarrow> stype" where
  "unwrap_type (LazyType t) = unwrap_type t"
| "unwrap_type (StrawberryOptional t) = unwrap_type t"
| "unwrap_type (StrawberryList t) = unwrap_type t"
| "unwrap_type t = t"

text \<open>\<open>utils/typing.py\<close>, \<open>has_django_definition\<close>, on a type and on \<open>None\<close>.\<close>

fun has_django_definition :: "stype \<Rightarrow> bool" where
  "has_django_definition (ObjectType n dj conn) = dj"
| "has_django_definition t = False"

section \<open>The bound model\<close>

text \<open>
  A model attribute as the engine reads it: its name, the flags \<open>null\<close>,
  \<open>blank\<close>, \<open>primary_key\<close> and \<open>is_relation\<close>, whether it has a default, and
  \<open>foreign_key\<close>, which is \<open>Some target_field\<close> exactly when the attribute is an
  instance of \<open>ForeignKey\<close>.
\<close>

datatype model_field = ModelField
  (fname: string) (null: bool) (has_default: bool) (blank: bool)
  (primary_key: bool) (is_relation: bool) (foreign_key: "model_field option")

text \<open>
  What \<open>getattr(model, name, None)\<close> can find on the model class when the name is
  not a model field: a \<open>ModelProperty\<close> (its type annotation and description), a
  \<open>property\<close> or \<open>cached_property\<close> (the return annotation of its function, if
  any, and its docstring), or any other attribute (with its truth value).
\<close>

datatype class_attr =
    ModelPropertyAttr stype "string option"
  | PropertyAttr "stype option" "string option"
  | CachedPropertyAttr "stype option" "string option"
  | OtherAttr bool

text \<open>
  The model class: \<open>meta_fields\<close> is \<open>model._meta.fields\<close> (the concrete
  fields, in declaration order), \<open>meta_many_to_many\<close> and
  \<open>meta_related_objects\<close> are the many-to-many fields and the reverse relations,
  which the options object keeps apart from \<open>fields\<close>; \<open>class_attrs\<close> are the
  other attributes of the class.
\<close>

record model =
  meta_fields :: "model_field list"
  meta_many_to_many :: "model_field list"
  meta_related_objects :: "model_field list"
  class_attrs :: "string \<rightharpoonup> class_attr"

record settings =
  MAP_AUTO_ID_AS_GLOBAL_ID :: bool
  FIELD_DESCRIPTION_FROM_HELP_TEXT :: bool

section \<open>The type extension\<close>

datatype fields_arg = FieldsAll | FieldsList "string list" | FieldsNone

datatype filter_arg = FilterFlag bool | FilterLookups

fun truthy_filter :: "filter_arg \<Rightarrow> bool" where
  "truthy_filter (FilterFlag b) = b"
| "truthy_filter FilterLookups = True"

text \<open>\<open>DjangoTypeExtension.__init__\<close>, lines 96 to 103: the selection of names.\<close>

definition select_names :: "fields_arg \<Rightarrow> string list option \<Rightarrow> model \<Rightarrow> string list" where
  "select_names flds exclude m =
     (case flds of
        FieldsAll \<Rightarrow> map fname (meta_fields m)
      | FieldsList fs \<Rightarrow> filter (\<lambda>n. n \<in> set fs) (map fname (meta_fields m))
      | FieldsNone \<Rightarrow>
          (case exclude of
             Some ex \<Rightarrow>
               if length ex > 0
               then filter (\<lambda>n. n \<notin> set ex) (map fname (meta_fields m))
               else []
           | None \<Rightarrow> []))"

text \<open>Lines 105 to 108: \<open>names.remove("id")\<close> drops the first occurrence.\<close>

definition model_field_names ::
  "settings \<Rightarrow> fields_arg \<Rightarrow> string list option \<Rightarrow> model \<Rightarrow> string list" where
  "model_field_names st flds exclude m =
     (let names = select_names flds exclude m
      in if MAP_AUTO_ID_AS_GLOBAL_ID st \<and> ''id'' \<in> set names
         then remove1 ''id'' names else names)"

record extension =
  ext_model :: model
  ext_model_field_names :: "string list"
  ext_is_input :: bool
  ext_is_partial :: bool
  ext_is_filter :: filter_arg
  ext_use_fields_description :: bool

definition init_extension ::
  "settings \<Rightarrow> model \<Rightarrow> bool \<Rightarrow> bool \<Rightarrow> filter_arg \<Rightarrow> fields_arg \<Rightarrow> string list option
   \<Rightarrow> extension" where
  "init_extension st m inp part filt flds exclude =
     \<lparr> ext_model = m,
       ext_model_field_names = model_field_names st flds exclude m,
       ext_is_input = inp,
       ext_is_partial = part,
       ext_is_filter = filt,
       ext_use_fields_description = FIELD_DESCRIPTION_FROM_HELP_TEXT st \<rparr>"

subsection \<open>The before phase of \<open>on_wrap_dataclass\<close>\<close>

text \<open>
  A Python dictionary keeps its keys in insertion order: assigning to a key that
  is present replaces the value where it stands, assigning to a new key appends.
\<close>

fun dict_set :: "('k \<times> 'v) list \<Rightarrow> 'k \<Rightarrow> 'v \<Rightarrow> ('k \<times> 'v) list" where
  "dict_set [] k v = [(k, v)]"
| "dict_set ((k', v') # d) k v =
     (if k' = k then (k, v) # d else (k', v') # dict_set d k v)"

fun dict_update :: "('k \<times> 'v) list \<Rightarrow> ('k \<times> 'v) list \<Rightarrow> ('k \<times> 'v) list" where
  "dict_update d [] = d"
| "dict_update d ((k, v) # kvs) = dict_update (dict_set d k v) kvs"

definition dict_keys :: "('k \<times> 'v) list \<Rightarrow> 'k list" where
  "dict_keys d = map fst d"

text \<open>
  The class being decorated: its own \<open>__annotations__\<close> and the names for which
  \<open>hasattr(cls, name)\<close> holds.
\<close>

record py_class =
  cls_annotations :: "(string \<times> stype) list"
  cls_hasattr :: "string set"

text \<open>Lines 138 to 141: the loop over the selected names.\<close>

fun inject_auto ::
  "string list \<Rightarrow> string set \<Rightarrow> (string \<times> stype) list \<Rightarrow> (string \<times> stype) list" where
  "inject_auto [] attrs anns = anns"
| "inject_auto (name # names) attrs anns =
     (if name \<in> set (dict_keys anns) \<or> name \<in> attrs
      then inject_auto names attrs anns
      else inject_auto names attrs (dict_set anns name StrawberryAuto))"

definition filter_boilerplate :: "(string \<times> stype) list" where
  "filter_boilerplate =
     [(''AND'', StrawberryOptional SelfT),
      (''OR'', StrawberryOptional SelfT),
      (''NOT'', StrawberryOptional SelfT),
      (''DISTINCT'', StrawberryOptional (Plain ''bool''))]"

text \<open>Lines 135 to 151: the annotations of the class when the hook yields.\<close>

definition on_wrap_dataclass :: "extension \<Rightarrow> py_class \<Rightarrow> (string \<times> stype) list" where
  "on_wrap_dataclass ext cls =
     (let anns = inject_auto (ext_model_field_names ext) (cls_hasattr cls)
                   (cls_annotations cls)
      in if truthy_filter (ext_is_filter ext)
         then dict_update anns filter_boilerplate
         else anns)"


section \<open>Model attributes of a field\<close>

datatype error =
    FieldDoesNotExist
  | MissingFieldAnnotationError string
  | KeyError string
  | ResolveError
  | RecursionError

text \<open>
  What a helper of \<open>fields/types.py\<close> is told about the type being built: both
  the type extension and the object definition carry the model and these flags.
\<close>

record type_info =
  ti_model :: model
  ti_is_input :: bool
  ti_is_partial :: bool
  ti_is_filter :: filter_arg

text \<open>
  The helpers of \<open>fields/types.py\<close> that the engine calls, as parameters:
  \<open>get_model_field\<close> gives \<open>None\<close> where it raises \<open>FieldDoesNotExist\<close>,
  \<open>resolve_model_field_type\<close> gives \<open>Inl\<close> where it raises, and
  \<open>is_optional\<close> is told the attribute, \<open>is_input\<close> and \<open>is_partial\<close>. With them
  comes \<open>recursion_limit\<close>, the depth of nested calls that the interpreter
  allows before it raises \<open>RecursionError\<close>.
\<close>

record helpers =
  get_model_field :: "model \<Rightarrow> string \<Rightarrow> model_field option"
  resolve_model_field_type :: "model_field \<Rightarrow> type_info \<Rightarrow> error + stype"
  resolve_model_field_name :: "model_field \<Rightarrow> bool \<Rightarrow> bool \<Rightarrow> bool \<Rightarrow> string"
  is_optional :: "model_field \<Rightarrow> bool \<Rightarrow> bool \<Rightarrow> bool"
  recursion_limit :: nat

text \<open>
  Modelled from the spec: \<open>is_optional\<close> of \<open>fields/types.py\<close> is not among the
  sources. Section 4.1 has it "true if attribute allows null, or has a default,
  or (is_input and is_partial), or is a primary key being used as an input field
  surrogate", and the end-to-end example of section 8 has a blank attribute
  optional in a non-partial input, as \<open>tests/fields/test_input.py\<close> asserts.
  The key that stands in for an input field is the automatic key of the model,
  which may be blank: the last case covers it.
\<close>

definition spec_is_optional :: "model_field \<Rightarrow> bool \<Rightarrow> bool \<Rightarrow> bool" where
  "spec_is_optional model_attr inp part \<longleftrightarrow>
     null model_attr \<or> has_default model_attr \<or> (inp \<and> part)
     \<or> (inp \<and> blank model_attr)"

text \<open>Python's \<open>str.endswith\<close>.\<close>

definition endswith :: "string \<Rightarrow> string \<Rightarrow> bool" where
  "endswith s suf \<longleftrightarrow>
     length suf \<le> length s \<and> drop (length s - length suf) s = suf"

datatype field_kind = DataclassField | PlainStrawberryField | DjangoField

datatype default_value = MISSING | UNSET | DefaultValue

text \<open>
  The object definition that \<open>get_object_definition(self.origin)\<close> finds: of
  the plain kind or a \<open>DjangoObjectDefinition\<close>.
\<close>

record django_definition_rec =
  dd_model :: model
  dd_is_input :: bool
  dd_is_partial :: bool
  dd_is_filter :: filter_arg

datatype object_definition =
    PlainDefinition
  | DjangoObjectDefinition django_definition_rec

datatype resolved = UNRESOLVED | Resolved stype

text \<open>
  A field, with what the engine reads and writes. A dataclass field has only a
  name, a type and defaults, and \<open>f_type\<close> is its stored type; from
  \<open>StrawberryField\<close> on the type is a property, computed from
  \<open>type_annotation\<close>, and \<open>python_name\<close> and \<open>base_resolver\<close> exist;
  \<open>django_name\<close> and \<open>is_relation\<close> exist on a \<open>StrawberryDjangoField\<close>. \<open>f_origin_definition\<close> is the
  object definition of the field's origin, \<open>f_django_definition\<close> the slot
  \<open>_django_definition\<close>, the \<open>c_\<close> slots hold the values of the cached
  properties, and \<open>f_lookups\<close> counts the calls of \<open>get_model_field\<close> made by
  \<open>resolve_type\<close>.
\<close>

record field =
  f_kind :: field_kind
  f_name :: string
  f_python_name :: string
  f_django_name :: "string option"
  f_type :: stype
  f_type_annotation :: "stype option"
  f_is_relation :: bool
  f_base_resolver :: bool
  f_default :: default_value
  f_default_value :: default_value
  f_origin_definition :: "object_definition option"
  f_django_definition :: "django_definition_rec option"
  f_lookups :: nat
  c_is_optional :: "bool option"
  c_is_list :: "bool option"
  c_is_connection :: "bool option"
  c_django_type :: "stype option option"

record model_attrs =
  a_django_name :: "string option"
  a_type_annotation :: stype
  a_is_relation :: bool

definition ext_info :: "extension \<Rightarrow> type_info" where
  "ext_info ext =
     \<lparr> ti_model = ext_model ext, ti_is_input = ext_is_input ext,
       ti_is_partial = ext_is_partial ext, ti_is_filter = ext_is_filter ext \<rparr>"

text \<open>\<open>getattr(field, "python_name", field.name)\<close>.\<close>

definition python_name_of :: "field \<Rightarrow> string" where
  "python_name_of f = (if f_kind f = DataclassField then f_name f else f_python_name f)"

text \<open>\<open>getattr(field, "django_name", None) or python_name\<close>.\<close>

definition model_name_of :: "field \<Rightarrow> string" where
  "model_name_of f =
     (if f_kind f = DjangoField
      then (case f_django_name f of
              None \<Rightarrow> python_name_of f
            | Some n \<Rightarrow> if n = [] then python_name_of f else n)
      else python_name_of f)"

text \<open>\<open>python_name.endswith("_id") and isinstance(model_attr, ForeignKey)\<close>.\<close>

definition is_fk_id :: "string \<Rightarrow> model_field \<Rightarrow> bool" where
  "is_fk_id python_name model_attr \<longleftrightarrow>
     endswith python_name ''_id'' \<and> foreign_key model_attr \<noteq> None"

text \<open>
  The attribute whose type is resolved: the target field of a foreign key when
  the python name ends in \<open>_id\<close>, the attribute itself otherwise.
\<close>

definition type_source :: "string \<Rightarrow> model_field \<Rightarrow> model_field" where
  "type_source python_name model_attr =
     (case foreign_key model_attr of
        Some target_field \<Rightarrow>
          if endswith python_name ''_id'' then target_field else model_attr
      | None \<Rightarrow> model_attr)"

definition wrap_optional :: "bool \<Rightarrow> stype \<Rightarrow> stype" where
  "wrap_optional b t = (if b then StrawberryOptional t else t)"

text \<open>
  \<open>DjangoTypeExtension._get_model_attrs\<close>, without the description, which
  plays no part in the type, the relation flag or the errors.
\<close>

definition get_model_attrs :: "helpers \<Rightarrow> extension \<Rightarrow> field \<Rightarrow> error + model_attrs" where
  "get_model_attrs H ext f =
     (let python_name = python_name_of f;
          model_name = model_name_of f
      in case get_model_field H (ext_model ext) model_name of
           None \<Rightarrow>
             (case class_attrs (ext_model ext) model_name of
                None \<Rightarrow> Inl FieldDoesNotExist
              | Some (ModelPropertyAttr ann desc) \<Rightarrow>
                  Inr \<lparr> a_django_name = Some model_name, a_type_annotation = ann,
                        a_is_relation = False \<rparr>
              | Some (PropertyAttr ret doc) \<Rightarrow>
                  (case ret of
                     None \<Rightarrow> Inl (MissingFieldAnnotationError model_name)
                   | Some return_type \<Rightarrow>
                       Inr \<lparr> a_django_name = Some model_name,
                             a_type_annotation = return_type, a_is_relation = False \<rparr>)
              | Some (CachedPropertyAttr ret doc) \<Rightarrow>
                  (case ret of
                     None \<Rightarrow> Inl (MissingFieldAnnotationError model_name)
                   | Some return_type \<Rightarrow>
                       Inr \<lparr> a_django_name = Some model_name,
                             a_type_annotation = return_type, a_is_relation = False \<rparr>)
              | Some (OtherAttr truth) \<Rightarrow> Inl FieldDoesNotExist)
         | Some model_attr \<Rightarrow>
             (case resolve_model_field_type H (type_source python_name model_attr)
                     (ext_info ext) of
                Inl e \<Rightarrow> Inl e
              | Inr resolved_type \<Rightarrow>
                  Inr \<lparr> a_django_name =
                          (if f_kind f = DjangoField then f_django_name f
                           else Some (resolve_model_field_name H model_attr
                                  (ext_is_input ext) (truthy_filter (ext_is_filter ext))
                                  (is_fk_id python_name model_attr))),
                        a_type_annotation =
                          wrap_optional
                            (is_optional H model_attr (ext_is_input ext) (ext_is_partial ext))
                            resolved_type,
                        a_is_relation = is_relation model_attr \<rparr>))"

section \<open>The field descriptor\<close>

text \<open>The property \<open>django_definition\<close>, which fills its slot when it finds one.\<close>

definition django_definition :: "field \<Rightarrow> django_definition_rec option \<times> field" where
  "django_definition f =
     (case f_django_definition f of
        Some d \<Rightarrow> (Some d, f)
      | None \<Rightarrow>
          (case f_origin_definition f of
             Some (DjangoObjectDefinition d) \<Rightarrow> (Some d, f\<lparr>f_django_definition := Some d\<rparr>)
           | Some PlainDefinition \<Rightarrow> (None, f)
           | None \<Rightarrow> (None, f)))"

text \<open>
  \<open>StrawberryField.resolve_type\<close> and the property \<open>StrawberryField.type\<close>
  belong to the GraphQL library, not to this repository. The method gives the
  resolved annotation of the field, and \<open>UNRESOLVED\<close> when there is none to
  resolve. The auto placeholder is \<open>Any\<close> with a marker, and resolving an
  annotation drops the marker: this is the \<open>Any\<close> that line 202 of
  \<open>fields/base.py\<close> looks for. The property calls \<open>self.resolve_type()\<close>,
  which on a field of this repository is the method of
  \<open>StrawberryDjangoFieldBase\<close>.
\<close>

fun resolve_annotation :: "stype \<Rightarrow> stype" where
  "resolve_annotation StrawberryAuto = AnyT"
| "resolve_annotation (StrawberryOptional t) = StrawberryOptional (resolve_annotation t)"
| "resolve_annotation (StrawberryList t) = StrawberryList (resolve_annotation t)"
| "resolve_annotation t = t"

definition super_resolve_type :: "field \<Rightarrow> resolved" where
  "super_resolve_type f =
     (case f_type_annotation f of
        None \<Rightarrow> UNRESOLVED
      | Some t \<Rightarrow> Resolved (resolve_annotation t))"

definition dd_info :: "django_definition_rec \<Rightarrow> type_info" where
  "dd_info d =
     \<lparr> ti_model = dd_model d, ti_is_input = dd_is_input d,
       ti_is_partial = dd_is_partial d, ti_is_filter = dd_is_filter d \<rparr>"

text \<open>\<open>self.django_name or self.python_name or self.name\<close>.\<close>

definition lookup_name :: "field \<Rightarrow> string" where
  "lookup_name f =
     (case f_django_name f of
        Some n \<Rightarrow> if n \<noteq> [] then n
                  else if f_python_name f \<noteq> [] then f_python_name f else f_name f
      | None \<Rightarrow> if f_python_name f \<noteq> [] then f_python_name f else f_name f)"

definition auto_to_unresolved :: "resolved \<Rightarrow> resolved" where
  "auto_to_unresolved r = (if r = Resolved StrawberryAuto then UNRESOLVED else r)"

text \<open>
  \<open>StrawberryDjangoFieldBase.resolve_type\<close>: the result and the field
  afterwards. After a lookup, line 226 reads \<open>super().type\<close>, the property,
  which calls \<open>resolve_type\<close> again on the field with its new annotation; \<open>n\<close>
  is the depth of calls that is left.
\<close>

fun resolve_depth :: "nat \<Rightarrow> helpers \<Rightarrow> field \<Rightarrow> error + (resolved \<times> field)" where
  "resolve_depth 0 H f = Inl RecursionError"
| "resolve_depth (Suc n) H f =
     (case super_resolve_type f of
        UNRESOLVED \<Rightarrow> Inr (UNRESOLVED, f)
      | Resolved t \<Rightarrow>
          (case django_definition f of
             (None, f1) \<Rightarrow> Inr (Resolved t, f1)
           | (Some django_def, f1) \<Rightarrow>
               if unwrap_type t = AnyT \<or> unwrap_type t = StrawberryAuto
               then
                 (case get_model_field H (dd_model django_def) (lookup_name f1) of
                    None \<Rightarrow> Inl FieldDoesNotExist
                  | Some model_field \<Rightarrow>
                      (case resolve_model_field_type H
                              (type_source (f_python_name f1) model_field)
                              (dd_info django_def) of
                         Inl e \<Rightarrow> Inl e
                       | Inr resolved_type \<Rightarrow>
                           (case resolve_depth n H
                                   (f1\<lparr> f_lookups := Suc (f_lookups f1),
                                       f_type_annotation :=
                                         Some (wrap_optional
                                           (is_optional H model_field (dd_is_input django_def)
                                              (dd_is_partial django_def))
                                           resolved_type) \<rparr>) of
                              Inl e \<Rightarrow> Inl e
                            | Inr (r, f3) \<Rightarrow> Inr (auto_to_unresolved r, f3))))
               else Inr (auto_to_unresolved (Resolved t), f1)))"

definition resolve_type :: "helpers \<Rightarrow> field \<Rightarrow> error + (resolved \<times> field)" where
  "resolve_type H f = resolve_depth (recursion_limit H) H f"

text \<open>
  The placeholders that make \<open>resolve_type\<close> consult the model:
  \<open>unwraped is Any or isinstance(unwraped, StrawberryAuto)\<close>.
\<close>

definition placeholder :: "stype \<Rightarrow> bool" where
  "placeholder t \<longleftrightarrow> unwrap_type t = AnyT \<or> unwrap_type t = StrawberryAuto"

text \<open>The property \<open>type\<close> of the field is its \<open>resolve_type()\<close>.\<close>

definition field_type :: "helpers \<Rightarrow> field \<Rightarrow> error + (resolved \<times> field)" where
  "field_type H f = resolve_type H f"

subsection \<open>The shape properties\<close>

text \<open>The bodies of the cached properties, on the value of \<open>self.type\<close>.\<close>

fun strip_optional :: "resolved \<Rightarrow> resolved" where
  "strip_optional (Resolved (StrawberryOptional t)) = Resolved t"
| "strip_optional r = r"

fun is_optional_body :: "resolved \<Rightarrow> bool" where
  "is_optional_body (Resolved (StrawberryOptional t)) = True"
| "is_optional_body r = False"

fun isinstance_list :: "resolved \<Rightarrow> bool" where
  "isinstance_list (Resolved (StrawberryList t)) = True"
| "isinstance_list r = False"

fun subclass_of_connection :: "resolved \<Rightarrow> bool" where
  "subclass_of_connection (Resolved (ObjectType n dj conn)) = (conn \<noteq> None)"
| "subclass_of_connection r = False"

definition is_list_body :: "resolved \<Rightarrow> bool" where
  "is_list_body r = isinstance_list (strip_optional r)"

definition is_connection_body :: "resolved \<Rightarrow> bool" where
  "is_connection_body r = subclass_of_connection (strip_optional r)"

text \<open>
  A \<open>functools.cached_property\<close>: the first access computes the value from
  \<open>self.type\<close> and stores it, a later access returns what is stored.
\<close>

definition field_is_optional :: "helpers \<Rightarrow> field \<Rightarrow> error + (bool \<times> field)" where
  "field_is_optional H f =
     (case c_is_optional f of
        Some b \<Rightarrow> Inr (b, f)
      | None \<Rightarrow>
          (case field_type H f of
             Inl e \<Rightarrow> Inl e
           | Inr (r, f') \<Rightarrow> Inr (is_optional_body r, f'\<lparr>c_is_optional := Some (is_optional_body r)\<rparr>)))"

definition field_is_list :: "helpers \<Rightarrow> field \<Rightarrow> error + (bool \<times> field)" where
  "field_is_list H f =
     (case c_is_list f of
        Some b \<Rightarrow> Inr (b, f)
      | None \<Rightarrow>
          (case field_type H f of
             Inl e \<Rightarrow> Inl e
           | Inr (r, f') \<Rightarrow> Inr (is_list_body r, f'\<lparr>c_is_list := Some (is_list_body r)\<rparr>)))"

definition field_is_connection :: "helpers \<Rightarrow> field \<Rightarrow> error + (bool \<times> field)" where
  "field_is_connection H f =
     (case c_is_connection f of
        Some b \<Rightarrow> Inr (b, f)
      | None \<Rightarrow>
          (case field_type H f of
             Inl e \<Rightarrow> Inl e
           | Inr (r, f') \<Rightarrow>
               Inr (is_connection_body r, f'\<lparr>c_is_connection := Some (is_connection_body r)\<rparr>)))"

text \<open>\<open>is_relation\<close> is an attribute, set by the constructor and by \<open>on_field\<close>.\<close>

definition field_is_relation :: "field \<Rightarrow> bool" where
  "field_is_relation f = f_is_relation f"

subsection \<open>\<open>django_type\<close>\<close>

fun resolve_lazy :: "stype option \<Rightarrow> stype option" where
  "resolve_lazy (Some (LazyType t)) = Some t"
| "resolve_lazy origin = origin"

text \<open>The inner loop: \<open>while isinstance(t, StrawberryContainer): t = t.of_type\<close>.\<close>

fun strip_containers :: "stype \<Rightarrow> stype" where
  "strip_containers (StrawberryOptional t) = strip_containers t"
| "strip_containers (StrawberryList t) = strip_containers t"
| "strip_containers t = t"

text \<open>
  The \<open>NodeType\<close> of a connection: the three maps in turn, the last one read
  with a subscript, which raises when the key is missing.
\<close>

fun connection_node :: "stype option \<Rightarrow> error + stype option" where
  "connection_node (Some (ObjectType n dj (Some (a, b, c)))) =
     (case a of
        Some t \<Rightarrow> Inr (resolve_lazy (Some t))
      | None \<Rightarrow>
          (case b of
             Some t \<Rightarrow> Inr (resolve_lazy (Some t))
           | None \<Rightarrow>
               (case c of
                  Some t \<Rightarrow> Inr (resolve_lazy (Some t))
                | None \<Rightarrow> Inl (KeyError ''NodeType''))))"
| "connection_node origin = Inr origin"

definition origin_list :: "stype list \<Rightarrow> stype list" where
  "origin_list ts = filter has_django_definition (map strip_containers ts)"

fun resolve_union :: "stype option \<Rightarrow> stype option" where
  "resolve_union (Some (StrawberryUnion ts)) =
     (case origin_list ts of [t] \<Rightarrow> Some t | _ \<Rightarrow> None)"
| "resolve_union origin = origin"

fun django_or_none :: "stype option \<Rightarrow> stype option" where
  "django_or_none (Some t) = (if has_django_definition t then Some t else None)"
| "django_or_none None = None"

fun type_value :: "resolved \<Rightarrow> stype option" where
  "type_value (Resolved t) = Some t"
| "type_value UNRESOLVED = None"

text \<open>
  The body of \<open>django_type\<close> on the value of \<open>self.type\<close>. The
  \<open>UNRESOLVED\<close> marker has no definition and is no container, lazy reference
  or union: it goes through as \<open>None\<close> does.
\<close>

definition django_type_body :: "resolved \<Rightarrow> error + stype option" where
  "django_type_body r =
     (case connection_node (resolve_lazy (type_value r)) of
        Inl e \<Rightarrow> Inl e
      | Inr origin \<Rightarrow>
          Inr (django_or_none
                 (resolve_union (resolve_lazy (map_option unwrap_type origin)))))"

definition django_type :: "helpers \<Rightarrow> field \<Rightarrow> error + (stype option \<times> field)" where
  "django_type H f =
     (case c_django_type f of
        Some t \<Rightarrow> Inr (t, f)
      | None \<Rightarrow>
          (case field_type H f of
             Inl e \<Rightarrow> Inl e
           | Inr (r, f') \<Rightarrow>
               (case django_type_body r of
                  Inl e \<Rightarrow> Inl e
                | Inr t \<Rightarrow> Inr (t, f'\<lparr>c_django_type := Some t\<rparr>))))"


section \<open>The fields of a decorated class\<close>

text \<open>
  \<open>is_private\<close> of the GraphQL library and \<open>is_auto\<close> of \<open>utils/typing.py\<close>,
  on a type and on the \<open>UNRESOLVED\<close> marker. Annotations are type objects here:
  one that is still held as a string, and the branch of \<open>is_auto\<close> for it, are
  left out.
\<close>

fun is_private :: "stype \<Rightarrow> bool" where
  "is_private (PrivateT t) = True"
| "is_private t = False"

fun is_auto :: "stype \<Rightarrow> bool" where
  "is_auto StrawberryAuto = True"
| "is_auto t = False"

fun is_private_value :: "resolved \<Rightarrow> bool" where
  "is_private_value (Resolved t) = is_private t"
| "is_private_value UNRESOLVED = False"

fun is_auto_value :: "resolved \<Rightarrow> bool" where
  "is_auto_value (Resolved t) = is_auto t"
| "is_auto_value UNRESOLVED = False"

text \<open>
  \<open>field.type\<close>, as \<open>on_field\<close> reads it: the stored type of a dataclass
  field, the property of a \<open>StrawberryField\<close>, which resolves the annotation,
  and on a field of this repository calls \<open>resolve_type\<close>, which can change
  the field or raise.
\<close>

definition read_type :: "helpers \<Rightarrow> field \<Rightarrow> error + (resolved \<times> field)" where
  "read_type H f =
     (case f_kind f of
        DataclassField \<Rightarrow> Inr (Resolved (f_type f), f)
      | PlainStrawberryField \<Rightarrow> Inr (super_resolve_type f, f)
      | DjangoField \<Rightarrow> resolve_type H f)"

text \<open>The last step of \<open>on_field\<close>: an input field without a default gets \<open>UNSET\<close>.\<close>

definition input_default :: "extension \<Rightarrow> field \<Rightarrow> field" where
  "input_default ext f =
     (if ext_is_input ext \<and> f_default f = MISSING \<and> f_default_value f = MISSING
      then f\<lparr>f_default := UNSET, f_default_value := UNSET\<rparr>
      else f)"

text \<open>\<open>getattr(field, "type_annotation", StrawberryAnnotation(type_))\<close>.\<close>

definition plain_annotation :: "field \<Rightarrow> stype option" where
  "plain_annotation f =
     (if f_kind f = DataclassField then Some (f_type f) else f_type_annotation f)"

text \<open>
  The attributes that \<open>on_field\<close> gives the field: those of
  \<open>_get_model_attrs\<close> for an auto field, the type annotation alone otherwise.
\<close>

definition apply_attrs :: "model_attrs option \<Rightarrow> stype option \<Rightarrow> field \<Rightarrow> field" where
  "apply_attrs attrs ann f =
     (case attrs of
        None \<Rightarrow> f\<lparr>f_type_annotation := ann\<rparr>
      | Some a \<Rightarrow>
          f\<lparr> f_django_name := a_django_name a,
              f_type_annotation := Some (a_type_annotation a),
              f_is_relation := a_is_relation a \<rparr>)"

text \<open>The field that \<open>self.field_cls(...)\<close> builds from another field.\<close>

definition new_field :: "field \<Rightarrow> field" where
  "new_field f =
     f\<lparr> f_kind := DjangoField,
         f_python_name := python_name_of f,
         f_django_name := None,
         f_is_relation := False,
         f_base_resolver := (f_kind f \<noteq> DataclassField \<and> f_base_resolver f),
         f_django_definition := None,
         c_is_optional := None, c_is_list := None, c_is_connection := None,
         c_django_type := None \<rparr>"

text \<open>
  \<open>DjangoTypeExtension.on_field\<close>. An error of reading the type or of
  \<open>_get_model_attrs\<close> is the result: nothing in \<open>on_field\<close> catches it.
\<close>

definition on_field :: "helpers \<Rightarrow> extension \<Rightarrow> field \<Rightarrow> error + field" where
  "on_field H ext f =
     (case read_type H f of
        Inl e \<Rightarrow> Inl e
      | Inr (ty, f') \<Rightarrow>
          if is_private_value ty then Inr f'
          else
            (case (if is_auto_value ty
                   then (case get_model_attrs H ext f' of
                           Inl e \<Rightarrow> Inl e | Inr a \<Rightarrow> Inr (Some a))
                   else Inr None) of
               Inl e \<Rightarrow> Inl e
             | Inr attrs \<Rightarrow>
                 if f_kind f' = DjangoField
                 then Inr (input_default ext (apply_attrs attrs (plain_annotation f') f'))
                 else if f_kind f' = PlainStrawberryField \<and> f_base_resolver f' then Inr f'
                 else Inr (input_default ext
                             (apply_attrs attrs (plain_annotation f') (new_field f')))))"

text \<open>
  The claim's wording of "configured as included", to compare with the names
  that \<open>__init__\<close> computes: a concrete field name of the model that the
  field list names, or any under \<open>"__all__"\<close>, or that a non-empty exclusion
  list does not name, and that is not \<open>id\<close> when the global-id setting is on.
\<close>

definition configured_included ::
  "settings \<Rightarrow> fields_arg \<Rightarrow> string list option \<Rightarrow> model \<Rightarrow> string \<Rightarrow> bool" where
  "configured_included st flds exclude m n \<longleftrightarrow>
     n \<in> set (map fname (meta_fields m)) \<and>
     (case flds of
        FieldsAll \<Rightarrow> True
      | FieldsList fs \<Rightarrow> n \<in> set fs
      | FieldsNone \<Rightarrow> (case exclude of Some ex \<Rightarrow> ex \<noteq> [] \<and> n \<notin> set ex | None \<Rightarrow> False)) \<and>
     \<not> (MAP_AUTO_ID_AS_GLOBAL_ID st \<and> n = ''id'')"


section \<open>Examples\<close>

text \<open>
  Helpers to run the engine on examples: a field is found by its name, a
  foreign key also by its name followed by \<open>_id\<close>; a primary key has type
  \<open>ID\<close>, a relation the generic model type, any other column \<open>int\<close>;
  \<open>is_optional\<close> is the one modelled from the specification.
  \<open>deferring_helpers\<close> resolve every attribute to the auto placeholder.
\<close>

definition example_helpers :: helpers where
  "example_helpers =
     \<lparr> get_model_field =
         (\<lambda>m n. find (\<lambda>a. fname a = n \<or> (foreign_key a \<noteq> None \<and> fname a @ ''_id'' = n))
                  (meta_fields m)),
       resolve_model_field_type =
         (\<lambda>a i. Inr (if primary_key a then Plain ''ID''
                      else if foreign_key a \<noteq> None then ObjectType ''DjangoModelType'' False None
                      else Plain ''int'')),
       resolve_model_field_name = (\<lambda>a inp filt fk. if fk then fname a @ ''_id'' else fname a),
       is_optional = spec_is_optional,
       recursion_limit = 1000 \<rparr>"

definition deferring_helpers :: helpers where
  "deferring_helpers =
     example_helpers\<lparr>resolve_model_field_type := (\<lambda>a i. Inr StrawberryAuto)\<rparr>"

text \<open>
  \<open>InputFieldsModel\<close> of \<open>tests/fields/test_input.py\<close>, with the automatic
  primary key that every model gets.
\<close>

definition InputFieldsModel :: model where
  "InputFieldsModel =
     \<lparr> meta_fields =
         [ModelField ''id'' False False True True False None,
          ModelField ''mandatory'' False False False False False None,
          ModelField ''default'' False True False False False None,
          ModelField ''blank'' False False True False False None,
          ModelField ''null'' True False False False False None],
       meta_many_to_many = [], meta_related_objects = [], class_attrs = Map.empty \<rparr>"

text \<open>
  A model with a required and a nullable foreign key, a property without a
  return annotation and one with.
\<close>

definition BookModel :: model where
  "BookModel =
     \<lparr> meta_fields =
         [ModelField ''id'' False False True True False None,
          ModelField ''author'' False False False False True
            (Some (ModelField ''id'' False False True True False None)),
          ModelField ''editor'' True False False False True
            (Some (ModelField ''id'' False False True True False None))],
       meta_many_to_many = [], meta_related_objects = [],
       class_attrs = [''title_length'' \<mapsto> PropertyAttr None None,
                      ''summary'' \<mapsto> PropertyAttr (Some (Plain ''str'')) None] \<rparr>"

text \<open>A dataclass field declared \<open>name: auto\<close>, as \<open>on_field\<close> receives it.\<close>

definition auto_field :: "string \<Rightarrow> field" where
  "auto_field n =
     \<lparr> f_kind = DataclassField, f_name = n, f_python_name = n, f_django_name = None,
       f_type = StrawberryAuto, f_type_annotation = None, f_is_relation = False,
       f_base_resolver = False, f_default = MISSING, f_default_value = MISSING,
       f_origin_definition = None, f_django_definition = None, f_lookups = 0,
       c_is_optional = None, c_is_list = None, c_is_connection = None,
       c_django_type = None \<rparr>"

definition example_extension :: "model \<Rightarrow> bool \<Rightarrow> bool \<Rightarrow> extension" where
  "example_extension m inp part =
     \<lparr> ext_model = m, ext_model_field_names = [], ext_is_input = inp,
       ext_is_partial = part, ext_is_filter = FilterFlag False,
       ext_use_fields_description = False \<rparr>"

text \<open>
  A field of a decorated output type of the model, its annotation \<open>ann\<close> not
  yet looked at by \<open>resolve_type\<close>.
\<close>

definition declared_field :: "model \<Rightarrow> string \<Rightarrow> stype \<Rightarrow> field" where
  "declared_field m n ann =
     \<lparr> f_kind = DjangoField, f_name = n, f_python_name = n, f_django_name = None,
       f_type = ann, f_type_annotation = Some ann, f_is_relation = False,
       f_base_resolver = False, f_default = MISSING, f_default_value = MISSING,
       f_origin_definition =
         Some (DjangoObjectDefinition
           \<lparr> dd_model = m, dd_is_input = False, dd_is_partial = False,
             dd_is_filter = FilterFlag False \<rparr>),
       f_django_definition = None, f_lookups = 0,
       c_is_optional = None, c_is_list = None, c_is_connection = None,
       c_django_type = None \<rparr>"

section \<open>Properties of the before phase\<close>

lemma dict_set_fresh: "k \<notin> set (dict_keys d) \<Longrightarrow> dict_set d k v = d @ [(k, v)]"
  by (induction d) (auto simp: dict_keys_def)

lemma map_of_dict_set: "map_of (dict_set d k v) = (map_of d)(k \<mapsto> v)"
  by (induction d) (auto simp: fun_eq_iff)

lemma dict_keys_dict_set:
  "set (dict_keys (dict_set d k v)) = insert k (set (dict_keys d))"
proof (induction d)
  case Nil
  then show ?case by (simp add: dict_keys_def)
next
  case (Cons p d)
  obtain k' v' where p: "p = (k', v')" by (cases p)
  show ?case using Cons.IH by (cases "k' = k") (auto simp: p dict_keys_def)
qed

lemma inject_auto_appends:
  "\<exists>new. inject_auto names attrs anns = anns @ new \<and>
         (\<forall>kv \<in> set new. snd kv = StrawberryAuto \<and> fst kv \<in> set names
             \<and> fst kv \<notin> attrs \<and> fst kv \<notin> set (dict_keys anns))"
proof (induction names arbitrary: anns)
  case Nil
  then show ?case by simp
next
  case (Cons name names)
  show ?case
  proof (cases "name \<in> set (dict_keys anns) \<or> name \<in> attrs")
    case True
    with Cons.IH [of anns] show ?thesis by auto
  next
    case False
    then have eq: "dict_set anns name StrawberryAuto = anns @ [(name, StrawberryAuto)]"
      by (simp add: dict_set_fresh)
    from Cons.IH [of "anns @ [(name, StrawberryAuto)]"]
    obtain new where new: "inject_auto names attrs (anns @ [(name, StrawberryAuto)]) =
        (anns @ [(name, StrawberryAuto)]) @ new"
      "\<forall>kv \<in> set new. snd kv = StrawberryAuto \<and> fst kv \<in> set names
             \<and> fst kv \<notin> attrs \<and> fst kv \<notin> set (dict_keys (anns @ [(name, StrawberryAuto)]))"
      by blast
    have "inject_auto (name # names) attrs anns = anns @ ((name, StrawberryAuto) # new)"
      using False eq new(1) by simp
    moreover have "\<forall>kv \<in> set ((name, StrawberryAuto) # new). snd kv = StrawberryAuto \<and> fst kv \<in> set (name # names)
             \<and> fst kv \<notin> attrs \<and> fst kv \<notin> set (dict_keys anns)"
      using False new(2) by (auto simp: dict_keys_def)
    ultimately show ?thesis by blast
  qed
qed

lemma inject_auto_keys:
  "set (dict_keys (inject_auto names attrs anns)) =
     set (dict_keys anns) \<union> {n \<in> set names. n \<notin> attrs}"
  by (induction names arbitrary: anns) (auto simp: dict_keys_dict_set)

lemma inject_auto_old:
  "k \<in> set (dict_keys anns) \<or> k \<in> attrs \<Longrightarrow>
   map_of (inject_auto names attrs anns) k = map_of anns k"
  by (induction names arbitrary: anns) (auto simp: map_of_dict_set dict_keys_dict_set)

lemma inject_auto_new:
  "n \<in> set names \<Longrightarrow> n \<notin> set (dict_keys anns) \<Longrightarrow> n \<notin> attrs \<Longrightarrow>
   map_of (inject_auto names attrs anns) n = Some StrawberryAuto"
proof (induction names arbitrary: anns)
  case Nil
  then show ?case by simp
next
  case (Cons a names)
  show ?case
  proof (cases "a = n")
    case True
    have "n \<in> set (dict_keys (dict_set anns n StrawberryAuto))"
      by (simp add: dict_keys_dict_set)
    then have "map_of (inject_auto names attrs (dict_set anns n StrawberryAuto)) n
        = map_of (dict_set anns n StrawberryAuto) n"
      by (simp add: inject_auto_old)
    with True Cons.prems show ?thesis by (simp add: map_of_dict_set)
  next
    case False
    with Cons show ?thesis by (auto simp: dict_keys_dict_set)
  qed
qed


lemma subseq_remove1: "subseq (remove1 x xs) xs"
  by (induction xs) auto

lemma dict_update_fresh:
  "distinct (map fst kvs) \<Longrightarrow> set (dict_keys d) \<inter> fst ` set kvs = {} \<Longrightarrow>
   dict_update d kvs = d @ kvs"
proof (induction kvs arbitrary: d)
  case Nil
  then show ?case by simp
next
  case (Cons kv kvs)
  obtain k v where kv: "kv = (k, v)" by (cases kv)
  have fresh: "k \<notin> set (dict_keys d)" using Cons.prems(2) kv by auto
  have "set (dict_keys (d @ [(k, v)])) \<inter> fst ` set kvs = {}"
    using Cons.prems kv by (auto simp: dict_keys_def)
  moreover have "distinct (map fst kvs)" using Cons.prems(1) by simp
  ultimately have "dict_update (d @ [(k, v)]) kvs = (d @ [(k, v)]) @ kvs"
    by (rule Cons.IH [rotated])
  then show ?case using fresh kv by (simp add: dict_set_fresh)
qed

lemma select_names_iff:
  "n \<in> set (select_names flds exclude m) \<longleftrightarrow>
     n \<in> set (map fname (meta_fields m)) \<and>
     (case flds of
        FieldsAll \<Rightarrow> True
      | FieldsList fs \<Rightarrow> n \<in> set fs
      | FieldsNone \<Rightarrow> (case exclude of Some ex \<Rightarrow> ex \<noteq> [] \<and> n \<notin> set ex | None \<Rightarrow> False))"
  by (auto simp: select_names_def split: fields_arg.splits option.splits)

lemma included_in_names:
  "configured_included st flds exclude m n \<Longrightarrow> n \<in> set (model_field_names st flds exclude m)"
  unfolding configured_included_def model_field_names_def Let_def
  using select_names_iff [of n flds exclude m] by auto

lemma names_subset: "set (model_field_names st flds exclude m) \<subseteq> set (select_names flds exclude m)"
  unfolding model_field_names_def Let_def
  using set_remove1_subset [of "''id''" "select_names flds exclude m"] by auto


lemma dict_keys_dict_set_list:
  "dict_keys (dict_set d k v) =
     (if k \<in> set (dict_keys d) then dict_keys d else dict_keys d @ [k])"
proof (induction d)
  case Nil
  then show ?case by (simp add: dict_keys_def)
next
  case (Cons p d)
  obtain k' v' where p: "p = (k', v')" by (cases p)
  show ?case using Cons.IH by (cases "k' = k") (auto simp: p dict_keys_def)
qed

lemma dict_keys_dict_update:
  "distinct (map fst kvs) \<Longrightarrow>
   dict_keys (dict_update d kvs) =
     dict_keys d @ filter (\<lambda>k. k \<notin> set (dict_keys d)) (map fst kvs)"
proof (induction kvs arbitrary: d)
  case Nil
  then show ?case by simp
next
  case (Cons kv kvs)
  obtain k v where kv: "kv = (k, v)" by (cases kv)
  have dist: "distinct (map fst kvs)" and fresh: "k \<notin> set (map fst kvs)"
    using Cons.prems kv by auto
  have same: "filter (\<lambda>x. x \<notin> set (dict_keys (dict_set d k v))) (map fst kvs)
      = filter (\<lambda>x. x \<notin> set (dict_keys d)) (map fst kvs)"
    using fresh by (intro filter_cong) (auto simp: dict_keys_dict_set)
  have "dict_keys (dict_update d (kv # kvs)) =
      dict_keys (dict_set d k v) @ filter (\<lambda>x. x \<notin> set (dict_keys (dict_set d k v))) (map fst kvs)"
    using Cons.IH [OF dist, of "dict_set d k v"] kv by simp
  then show ?case using same kv by (simp add: dict_keys_dict_set_list)
qed

lemma inject_auto_take:
  "take (length anns) (inject_auto names attrs anns) = anns"
proof -
  obtain new where "inject_auto names attrs anns = anns @ new"
    using inject_auto_appends [of names attrs anns] by blast
  then show ?thesis by simp
qed

lemma boilerplate_keys: "map fst filter_boilerplate = [''AND'', ''OR'', ''NOT'', ''DISTINCT'']"
  by (simp add: filter_boilerplate_def)

lemma on_wrap_dataclass_keys:
  "dict_keys (on_wrap_dataclass ext cls) =
     dict_keys (inject_auto (ext_model_field_names ext) (cls_hasattr cls) (cls_annotations cls))
     @ (if truthy_filter (ext_is_filter ext)
        then filter (\<lambda>k. k \<notin> set (dict_keys (inject_auto (ext_model_field_names ext)
                          (cls_hasattr cls) (cls_annotations cls))))
               [''AND'', ''OR'', ''NOT'', ''DISTINCT'']
        else [])"
proof -
  have "distinct (map fst filter_boilerplate)" by (simp add: boilerplate_keys)
  then show ?thesis
    by (simp add: on_wrap_dataclass_def Let_def dict_keys_dict_update boilerplate_keys)
qed

lemma map_of_dict_update_boiler:
  "map_of (dict_update d filter_boilerplate) =
     (map_of d)(''AND'' \<mapsto> StrawberryOptional SelfT, ''OR'' \<mapsto> StrawberryOptional SelfT,
        ''NOT'' \<mapsto> StrawberryOptional SelfT, ''DISTINCT'' \<mapsto> StrawberryOptional (Plain ''bool''))"
  by (simp add: filter_boilerplate_def map_of_dict_set)

lemma map_of_dict_update_other:
  "k \<notin> fst ` set kvs \<Longrightarrow> map_of (dict_update d kvs) k = map_of d k"
  by (induction kvs arbitrary: d) (auto simp: map_of_dict_set)

lemma on_wrap_dataclass_other:
  assumes "\<not> truthy_filter (ext_is_filter ext) \<or> k \<notin> {''AND'', ''OR'', ''NOT'', ''DISTINCT''}"
  shows "map_of (on_wrap_dataclass ext cls) k =
     map_of (inject_auto (ext_model_field_names ext) (cls_hasattr cls) (cls_annotations cls)) k"
proof (cases "truthy_filter (ext_is_filter ext)")
  case True
  then have "k \<notin> fst ` set filter_boilerplate"
    using assms boilerplate_keys by (metis list.set_map list.simps(15) empty_set)
  then show ?thesis using True by (simp add: on_wrap_dataclass_def map_of_dict_update_other)
next
  case False
  then show ?thesis by (simp add: on_wrap_dataclass_def)
qed

text \<open>
  C8, as the claim states it, fails in a filterable type: the included name
  \<open>NOT\<close> of the model, which the class does not declare, ends as an optional
  reference to the type and not as the auto placeholder, and the name \<open>AND\<close>,
  which the class declares, does not keep its annotation.
\<close>

theorem before_phase_counterexample:
  "configured_included
     \<lparr>MAP_AUTO_ID_AS_GLOBAL_ID = False, FIELD_DESCRIPTION_FROM_HELP_TEXT = False\<rparr>
     FieldsAll None
     \<lparr>meta_fields = [ModelField ''id'' False False True True False None,
                      ModelField ''NOT'' False False False False False None],
      meta_many_to_many = [], meta_related_objects = [], class_attrs = Map.empty\<rparr> ''NOT''
   \<and> ''NOT'' \<notin> set (dict_keys (cls_annotations
         \<lparr>cls_annotations = [(''AND'', Plain ''int'')], cls_hasattr = {}\<rparr>))
   \<and> ''NOT'' \<notin> cls_hasattr \<lparr>cls_annotations = [(''AND'', Plain ''int'')], cls_hasattr = {}\<rparr>
   \<and> on_wrap_dataclass
       (init_extension
          \<lparr>MAP_AUTO_ID_AS_GLOBAL_ID = False, FIELD_DESCRIPTION_FROM_HELP_TEXT = False\<rparr>
          \<lparr>meta_fields = [ModelField ''id'' False False True True False None,
                           ModelField ''NOT'' False False False False False None],
           meta_many_to_many = [], meta_related_objects = [], class_attrs = Map.empty\<rparr>
          True True (FilterFlag True) FieldsAll None)
       \<lparr>cls_annotations = [(''AND'', Plain ''int'')], cls_hasattr = {}\<rparr>
     = [(''AND'', StrawberryOptional SelfT), (''id'', StrawberryAuto),
        (''NOT'', StrawberryOptional SelfT), (''OR'', StrawberryOptional SelfT),
        (''DISTINCT'', StrawberryOptional (Plain ''bool''))]"
  by (simp add: configured_included_def dict_keys_def on_wrap_dataclass_def
      init_extension_def model_field_names_def select_names_def filter_boilerplate_def)

text \<open>
  C8, amended. In the before phase, every included name (by an explicit field
  list, by \<open>"__all__"\<close> or by a non-empty exclusion list, less \<open>id\<close> when the
  global-id setting is on) that is neither annotated on the class nor an
  attribute of it is annotated with the auto placeholder, and a name that the
  class already declares keeps what it had (an annotation or none), and the
  annotations of the class keep their places, in front. The exception is a
  filterable type: there the names \<open>AND\<close>, \<open>OR\<close>, \<open>NOT\<close> and \<open>DISTINCT\<close>
  end with the annotations of the filter fields, whether they were included,
  declared or neither.
\<close>

theorem before_phase_injects_auto:
  assumes "configured_included st flds exclude m n"
      and "n \<notin> set (dict_keys (cls_annotations cls))" and "n \<notin> cls_hasattr cls"
  shows "(\<not> truthy_filter filt \<or> n \<notin> {''AND'', ''OR'', ''NOT'', ''DISTINCT''} \<longrightarrow>
            map_of (on_wrap_dataclass (init_extension st m inp part filt flds exclude) cls) n
              = Some StrawberryAuto)
       \<and> (\<forall>k. (k \<in> set (dict_keys (cls_annotations cls)) \<or> k \<in> cls_hasattr cls)
              \<and> (\<not> truthy_filter filt \<or> k \<notin> {''AND'', ''OR'', ''NOT'', ''DISTINCT''}) \<longrightarrow>
            map_of (on_wrap_dataclass (init_extension st m inp part filt flds exclude) cls) k
              = map_of (cls_annotations cls) k)
       \<and> take (length (cls_annotations cls))
            (dict_keys (on_wrap_dataclass (init_extension st m inp part filt flds exclude) cls))
           = dict_keys (cls_annotations cls)
       \<and> (truthy_filter filt \<longrightarrow>
            map_of (on_wrap_dataclass (init_extension st m inp part filt flds exclude) cls)
                 ''AND'' = Some (StrawberryOptional SelfT)
            \<and> map_of (on_wrap_dataclass (init_extension st m inp part filt flds exclude) cls)
                 ''OR'' = Some (StrawberryOptional SelfT)
            \<and> map_of (on_wrap_dataclass (init_extension st m inp part filt flds exclude) cls)
                 ''NOT'' = Some (StrawberryOptional SelfT)
            \<and> map_of (on_wrap_dataclass (init_extension st m inp part filt flds exclude) cls)
                 ''DISTINCT'' = Some (StrawberryOptional (Plain ''bool'')))"
proof -
  let ?ext = "init_extension st m inp part filt flds exclude"
  let ?names = "model_field_names st flds exclude m"
  let ?anns = "inject_auto ?names (cls_hasattr cls) (cls_annotations cls)"
  have ext: "ext_model_field_names ?ext = ?names" "ext_is_filter ?ext = filt"
    by (simp_all add: init_extension_def)
  have "n \<in> set ?names" using assms(1) by (rule included_in_names)
  then have new: "map_of ?anns n = Some StrawberryAuto"
    using assms(2,3) by (rule inject_auto_new)
  have a: "\<not> truthy_filter filt \<or> n \<notin> {''AND'', ''OR'', ''NOT'', ''DISTINCT''} \<longrightarrow>
            map_of (on_wrap_dataclass ?ext cls) n = Some StrawberryAuto"
    using new on_wrap_dataclass_other [of ?ext n cls] by (simp add: ext)
  have b: "\<forall>k. (k \<in> set (dict_keys (cls_annotations cls)) \<or> k \<in> cls_hasattr cls)
              \<and> (\<not> truthy_filter filt \<or> k \<notin> {''AND'', ''OR'', ''NOT'', ''DISTINCT''}) \<longrightarrow>
            map_of (on_wrap_dataclass ?ext cls) k = map_of (cls_annotations cls) k"
    using on_wrap_dataclass_other [of ?ext _ cls] inject_auto_old [of _ "cls_annotations cls"
        "cls_hasattr cls" ?names]
    by (simp add: ext)
  have "take (length (cls_annotations cls)) (dict_keys ?anns) = dict_keys (cls_annotations cls)"
    using inject_auto_take [of "cls_annotations cls" ?names "cls_hasattr cls"]
    by (metis dict_keys_def take_map)
  moreover have "length (cls_annotations cls) \<le> length (dict_keys ?anns)"
    using inject_auto_appends [of ?names "cls_hasattr cls" "cls_annotations cls"]
    by (auto simp: dict_keys_def)
  ultimately have c: "take (length (cls_annotations cls)) (dict_keys (on_wrap_dataclass ?ext cls))
      = dict_keys (cls_annotations cls)"
    by (simp add: on_wrap_dataclass_keys ext)
  have d: "truthy_filter filt \<longrightarrow>
            map_of (on_wrap_dataclass ?ext cls) ''AND'' = Some (StrawberryOptional SelfT)
            \<and> map_of (on_wrap_dataclass ?ext cls) ''OR'' = Some (StrawberryOptional SelfT)
            \<and> map_of (on_wrap_dataclass ?ext cls) ''NOT'' = Some (StrawberryOptional SelfT)
            \<and> map_of (on_wrap_dataclass ?ext cls) ''DISTINCT''
                = Some (StrawberryOptional (Plain ''bool''))"
    by (simp add: on_wrap_dataclass_def ext map_of_dict_update_boiler)
  from a b c d show ?thesis by blast
qed

theorem before_phase_injects_auto_witness:
  "configured_included \<lparr>MAP_AUTO_ID_AS_GLOBAL_ID = True, FIELD_DESCRIPTION_FROM_HELP_TEXT = False\<rparr>
     (FieldsList [''name'', ''id'']) None
     \<lparr>meta_fields = [ModelField ''id'' False False True True False None,
                      ModelField ''name'' False False False False False None],
      meta_many_to_many = [], meta_related_objects = [], class_attrs = Map.empty\<rparr> ''name''
   \<and> ''name'' \<notin> set (dict_keys (cls_annotations
         \<lparr>cls_annotations = [(''extra'', Plain ''int'')], cls_hasattr = {''helper''}\<rparr>))
   \<and> ''name'' \<notin> cls_hasattr
         \<lparr>cls_annotations = [(''extra'', Plain ''int'')], cls_hasattr = {''helper''}\<rparr>
   \<and> map_of (on_wrap_dataclass
         (init_extension
            \<lparr>MAP_AUTO_ID_AS_GLOBAL_ID = True, FIELD_DESCRIPTION_FROM_HELP_TEXT = False\<rparr>
            \<lparr>meta_fields = [ModelField ''id'' False False True True False None,
                             ModelField ''name'' False False False False False None],
             meta_many_to_many = [], meta_related_objects = [], class_attrs = Map.empty\<rparr>
            True False (FilterFlag True) (FieldsList [''name'', ''id'']) None)
         \<lparr>cls_annotations = [(''extra'', Plain ''int'')], cls_hasattr = {''helper''}\<rparr>)
       ''name'' = Some StrawberryAuto"
proof -
  have a: "configured_included \<lparr>MAP_AUTO_ID_AS_GLOBAL_ID = True, FIELD_DESCRIPTION_FROM_HELP_TEXT = False\<rparr>
     (FieldsList [''name'', ''id'']) None
     \<lparr>meta_fields = [ModelField ''id'' False False True True False None,
                      ModelField ''name'' False False False False False None],
      meta_many_to_many = [], meta_related_objects = [], class_attrs = Map.empty\<rparr> ''name''"
    by (simp add: configured_included_def)
  have b: "''name'' \<notin> set (dict_keys (cls_annotations
         \<lparr>cls_annotations = [(''extra'', Plain ''int'')], cls_hasattr = {''helper''}\<rparr>))"
    by (simp add: dict_keys_def)
  have c: "''name'' \<notin> cls_hasattr
         \<lparr>cls_annotations = [(''extra'', Plain ''int'')], cls_hasattr = {''helper''}\<rparr>"
    by simp
  have d: "''name'' \<notin> {''AND'', ''OR'', ''NOT'', ''DISTINCT''}" by simp
  from before_phase_injects_auto [OF a b c, of "FilterFlag True" True False] a b c d
  show ?thesis by blast
qed

lemma subseq_select_names: "subseq (select_names flds exclude m) (map fname (meta_fields m))"
  by (simp add: select_names_def split: fields_arg.splits option.splits)

lemma subseq_model_field_names:
  "subseq (model_field_names st flds exclude m) (map fname (meta_fields m))"
proof -
  have "subseq (model_field_names st flds exclude m) (select_names flds exclude m)"
    by (simp add: model_field_names_def Let_def subseq_remove1)
  then show ?thesis using subseq_select_names by (rule subseq_order.order_trans)
qed

text \<open>
  C10. The auto-included names come from the concrete fields of the model only,
  in declaration order: the name of a many-to-many field or of a reverse
  relation that is not also a concrete field name is never selected and never
  injected, also under \<open>"__all__"\<close>. An explicit field list selects the
  concrete field names it contains, in declaration order, and its other names
  are dropped. An empty exclusion list selects nothing, as no selection does.
\<close>

theorem auto_names_from_concrete_fields:
  "set (model_field_names st flds exclude m) \<subseteq> set (map fname (meta_fields m))
   \<and> subseq (model_field_names st flds exclude m) (map fname (meta_fields m))
   \<and> (\<forall>f \<in> set (meta_many_to_many m) \<union> set (meta_related_objects m).
         fname f \<notin> set (map fname (meta_fields m)) \<longrightarrow>
         fname f \<notin> set (model_field_names st flds exclude m)
         \<and> fname f \<notin> set (dict_keys (inject_auto (model_field_names st flds exclude m) attrs [])))
   \<and> select_names (FieldsList fs) exclude m
         = filter (\<lambda>n. n \<in> set fs) (map fname (meta_fields m))
   \<and> select_names FieldsNone (Some []) m = []
   \<and> select_names FieldsNone (Some []) m = select_names FieldsNone None m
   \<and> model_field_names st FieldsNone (Some []) m = []"
proof -
  have sub: "set (model_field_names st flds exclude m) \<subseteq> set (map fname (meta_fields m))"
    using names_subset [of st flds exclude m] select_names_iff [of _ flds exclude m] by blast
  have keys: "set (dict_keys (inject_auto (model_field_names st flds exclude m) attrs []))
      \<subseteq> set (model_field_names st flds exclude m)"
  proof -
    have "set (dict_keys ([] :: (string \<times> stype) list)) = {}" by (simp add: dict_keys_def)
    then show ?thesis
      using inject_auto_keys [of "model_field_names st flds exclude m" attrs "[]"] by auto
  qed
  have m2m: "\<forall>f \<in> set (meta_many_to_many m) \<union> set (meta_related_objects m).
         fname f \<notin> set (map fname (meta_fields m)) \<longrightarrow>
         fname f \<notin> set (model_field_names st flds exclude m)
         \<and> fname f \<notin> set (dict_keys (inject_auto (model_field_names st flds exclude m) attrs []))"
    using sub keys by blast
  have lst: "select_names (FieldsList fs) exclude m
         = filter (\<lambda>n. n \<in> set fs) (map fname (meta_fields m))"
    by (simp add: select_names_def)
  have e1: "select_names FieldsNone (Some []) m = []" by (simp add: select_names_def)
  have e2: "select_names FieldsNone None m = []" by (simp add: select_names_def)
  have e3: "model_field_names st FieldsNone (Some []) m = []"
    by (simp add: model_field_names_def e1)
  from sub subseq_model_field_names m2m lst e1 e2 e3 show ?thesis by simp
qed

theorem auto_names_from_concrete_fields_witness:
  "ModelField ''types'' False False False False True None
     \<in> set (meta_many_to_many
          \<lparr>meta_fields = [ModelField ''id'' False False False True False None,
                      ModelField ''name'' False False False False False None],
           meta_many_to_many = [ModelField ''types'' False False False False True None],
           meta_related_objects = [], class_attrs = Map.empty\<rparr>)
   \<and> ''types'' \<notin> set (model_field_names
         \<lparr>MAP_AUTO_ID_AS_GLOBAL_ID = False, FIELD_DESCRIPTION_FROM_HELP_TEXT = False\<rparr>
         FieldsAll None
          \<lparr>meta_fields = [ModelField ''id'' False False False True False None,
                      ModelField ''name'' False False False False False None],
           meta_many_to_many = [ModelField ''types'' False False False False True None],
           meta_related_objects = [], class_attrs = Map.empty\<rparr>)
   \<and> select_names (FieldsList [''name'', ''nothing'', ''id'']) None
          \<lparr>meta_fields = [ModelField ''id'' False False False True False None,
                      ModelField ''name'' False False False False False None],
           meta_many_to_many = [ModelField ''types'' False False False False True None],
           meta_related_objects = [], class_attrs = Map.empty\<rparr> = [''id'', ''name'']"
  using auto_names_from_concrete_fields
    [of "\<lparr>MAP_AUTO_ID_AS_GLOBAL_ID = False, FIELD_DESCRIPTION_FROM_HELP_TEXT = False\<rparr>"
        FieldsAll None
        "\<lparr>meta_fields = [ModelField ''id'' False False False True False None,
                      ModelField ''name'' False False False False False None],
           meta_many_to_many = [ModelField ''types'' False False False False True None],
           meta_related_objects = [], class_attrs = Map.empty\<rparr>"
        "{}" "[''name'', ''nothing'', ''id'']"]
  by simp

text \<open>
  C4, as the claim states it, fails where the class annotates one of the four
  names itself: \<open>update\<close> replaces the annotation where it stands, so three
  entries are appended, not four, and \<open>AND\<close> stays in front of \<open>name\<close>.
\<close>

theorem filter_boilerplate_counterexample:
  "on_wrap_dataclass
     \<lparr>ext_model = \<lparr>meta_fields = [], meta_many_to_many = [], meta_related_objects = [],
                    class_attrs = Map.empty\<rparr>,
      ext_model_field_names = [], ext_is_input = True, ext_is_partial = True,
      ext_is_filter = FilterFlag True, ext_use_fields_description = False\<rparr>
     \<lparr>cls_annotations = [(''AND'', Plain ''int''), (''name'', StrawberryAuto)],
      cls_hasattr = {}\<rparr>
   = [(''AND'', StrawberryOptional SelfT), (''name'', StrawberryAuto),
      (''OR'', StrawberryOptional SelfT), (''NOT'', StrawberryOptional SelfT),
      (''DISTINCT'', StrawberryOptional (Plain ''bool''))]
   \<and> on_wrap_dataclass
     \<lparr>ext_model = \<lparr>meta_fields = [], meta_many_to_many = [], meta_related_objects = [],
                    class_attrs = Map.empty\<rparr>,
      ext_model_field_names = [], ext_is_input = True, ext_is_partial = True,
      ext_is_filter = FilterFlag True, ext_use_fields_description = False\<rparr>
     \<lparr>cls_annotations = [(''AND'', Plain ''int''), (''name'', StrawberryAuto)],
      cls_hasattr = {}\<rparr>
   \<noteq> [(''AND'', Plain ''int''), (''name'', StrawberryAuto)] @ filter_boilerplate"
  by (simp add: on_wrap_dataclass_def filter_boilerplate_def)

text \<open>
  C4, amended. For a filterable type the before phase leaves \<open>AND\<close>, \<open>OR\<close> and
  \<open>NOT\<close> annotated as optional references to the type itself and \<open>DISTINCT\<close>
  as an optional boolean, and every other annotation as it was. A name of the
  four that was annotated before (by the class or by the injection of auto
  fields) keeps its position; the others of the four are appended, in this
  order, after all the annotations there were. When none of the four was
  annotated before, they are exactly four new entries at the end.
\<close>

theorem filter_boilerplate_injected:
  assumes "truthy_filter (ext_is_filter ext)"
  shows "(set (dict_keys (inject_auto (ext_model_field_names ext) (cls_hasattr cls)
                  (cls_annotations cls)))
            \<inter> {''AND'', ''OR'', ''NOT'', ''DISTINCT''} = {} \<longrightarrow>
          on_wrap_dataclass ext cls =
            inject_auto (ext_model_field_names ext) (cls_hasattr cls) (cls_annotations cls)
            @ [(''AND'', StrawberryOptional SelfT), (''OR'', StrawberryOptional SelfT),
               (''NOT'', StrawberryOptional SelfT),
               (''DISTINCT'', StrawberryOptional (Plain ''bool''))])
       \<and> dict_keys (on_wrap_dataclass ext cls) =
            dict_keys (inject_auto (ext_model_field_names ext) (cls_hasattr cls)
                         (cls_annotations cls))
            @ filter (\<lambda>k. k \<notin> set (dict_keys (inject_auto (ext_model_field_names ext)
                              (cls_hasattr cls) (cls_annotations cls))))
                [''AND'', ''OR'', ''NOT'', ''DISTINCT'']
       \<and> map_of (on_wrap_dataclass ext cls) ''AND'' = Some (StrawberryOptional SelfT)
       \<and> map_of (on_wrap_dataclass ext cls) ''OR'' = Some (StrawberryOptional SelfT)
       \<and> map_of (on_wrap_dataclass ext cls) ''NOT'' = Some (StrawberryOptional SelfT)
       \<and> map_of (on_wrap_dataclass ext cls) ''DISTINCT''
            = Some (StrawberryOptional (Plain ''bool''))
       \<and> (\<forall>k. k \<notin> {''AND'', ''OR'', ''NOT'', ''DISTINCT''} \<longrightarrow>
            map_of (on_wrap_dataclass ext cls) k =
            map_of (inject_auto (ext_model_field_names ext) (cls_hasattr cls)
                      (cls_annotations cls)) k)"
proof -
  let ?anns = "inject_auto (ext_model_field_names ext) (cls_hasattr cls) (cls_annotations cls)"
  have eq: "on_wrap_dataclass ext cls = dict_update ?anns filter_boilerplate"
    using assms by (simp add: on_wrap_dataclass_def)
  have app: "set (dict_keys ?anns) \<inter> {''AND'', ''OR'', ''NOT'', ''DISTINCT''} = {} \<longrightarrow>
      dict_update ?anns filter_boilerplate = ?anns @ filter_boilerplate"
  proof
    assume "set (dict_keys ?anns) \<inter> {''AND'', ''OR'', ''NOT'', ''DISTINCT''} = {}"
    then have "set (dict_keys ?anns) \<inter> fst ` set filter_boilerplate = {}"
      by (simp add: filter_boilerplate_def)
    moreover have "distinct (map fst filter_boilerplate)"
      by (simp add: filter_boilerplate_def)
    ultimately show "dict_update ?anns filter_boilerplate = ?anns @ filter_boilerplate"
      by (rule dict_update_fresh [rotated])
  qed
  have keys: "dict_keys (on_wrap_dataclass ext cls) =
      dict_keys ?anns @ filter (\<lambda>k. k \<notin> set (dict_keys ?anns))
        [''AND'', ''OR'', ''NOT'', ''DISTINCT'']"
    using assms by (simp add: on_wrap_dataclass_keys)
  have m: "map_of (on_wrap_dataclass ext cls) =
     (map_of ?anns)(''AND'' \<mapsto> StrawberryOptional SelfT, ''OR'' \<mapsto> StrawberryOptional SelfT,
        ''NOT'' \<mapsto> StrawberryOptional SelfT, ''DISTINCT'' \<mapsto> StrawberryOptional (Plain ''bool''))"
    by (simp add: eq map_of_dict_update_boiler)
  have vals: "map_of (on_wrap_dataclass ext cls) ''AND'' = Some (StrawberryOptional SelfT)
       \<and> map_of (on_wrap_dataclass ext cls) ''OR'' = Some (StrawberryOptional SelfT)
       \<and> map_of (on_wrap_dataclass ext cls) ''NOT'' = Some (StrawberryOptional SelfT)
       \<and> map_of (on_wrap_dataclass ext cls) ''DISTINCT''
            = Some (StrawberryOptional (Plain ''bool''))
       \<and> (\<forall>k. k \<notin> {''AND'', ''OR'', ''NOT'', ''DISTINCT''} \<longrightarrow>
            map_of (on_wrap_dataclass ext cls) k = map_of ?anns k)"
    by (simp add: m)
  have first: "set (dict_keys ?anns) \<inter> {''AND'', ''OR'', ''NOT'', ''DISTINCT''} = {} \<longrightarrow>
          on_wrap_dataclass ext cls =
            ?anns @ [(''AND'', StrawberryOptional SelfT), (''OR'', StrawberryOptional SelfT),
               (''NOT'', StrawberryOptional SelfT),
               (''DISTINCT'', StrawberryOptional (Plain ''bool''))]"
    using app by (simp add: eq filter_boilerplate_def)
  from first keys vals show ?thesis by blast
qed

theorem filter_boilerplate_injected_witness:
  "truthy_filter (ext_is_filter
     \<lparr>ext_model = \<lparr>meta_fields = [], meta_many_to_many = [], meta_related_objects = [],
                    class_attrs = Map.empty\<rparr>,
      ext_model_field_names = [''name''], ext_is_input = True, ext_is_partial = True,
      ext_is_filter = FilterLookups, ext_use_fields_description = False\<rparr>)
   \<and> on_wrap_dataclass
     \<lparr>ext_model = \<lparr>meta_fields = [], meta_many_to_many = [], meta_related_objects = [],
                    class_attrs = Map.empty\<rparr>,
      ext_model_field_names = [''name''], ext_is_input = True, ext_is_partial = True,
      ext_is_filter = FilterLookups, ext_use_fields_description = False\<rparr>
     \<lparr>cls_annotations = [(''id'', StrawberryAuto)], cls_hasattr = {}\<rparr>
   = [(''id'', StrawberryAuto), (''name'', StrawberryAuto),
      (''AND'', StrawberryOptional SelfT), (''OR'', StrawberryOptional SelfT),
      (''NOT'', StrawberryOptional SelfT),
      (''DISTINCT'', StrawberryOptional (Plain ''bool''))]"
  using filter_boilerplate_injected
    [of "\<lparr>ext_model = \<lparr>meta_fields = [], meta_many_to_many = [], meta_related_objects = [],
                    class_attrs = Map.empty\<rparr>,
      ext_model_field_names = [''name''], ext_is_input = True, ext_is_partial = True,
      ext_is_filter = FilterLookups, ext_use_fields_description = False\<rparr>"
     "\<lparr>cls_annotations = [(''id'', StrawberryAuto)], cls_hasattr = {}\<rparr>"]
  by (simp add: dict_keys_def)



section \<open>Properties of the model attributes\<close>

lemmas ex_defs = example_helpers_def deferring_helpers_def InputFieldsModel_def BookModel_def
  auto_field_def example_extension_def declared_field_def

lemmas gma_defs = get_model_attrs_def python_name_of_def model_name_of_def type_source_def
  ext_info_def wrap_optional_def spec_is_optional_def endswith_def is_fk_id_def




lemma resolve_annotation_not_auto [simp]: "\<not> is_auto (resolve_annotation t)"
  by (cases t) auto

lemma auto_to_unresolved_not_auto [simp]: "\<not> is_auto_value (auto_to_unresolved r)"
  by (cases r rule: is_auto_value.cases; cases "r = Resolved StrawberryAuto")
     (auto simp: auto_to_unresolved_def elim: is_auto.elims)






section \<open>Properties of lazy type resolution\<close>

lemma unwrap_wrap_optional [simp]: "unwrap_type (wrap_optional b t) = unwrap_type t"
  by (simp add: wrap_optional_def)

lemma placeholder_resolve_annotation [simp]:
  "placeholder (resolve_annotation t) = placeholder t"
  by (induction t rule: resolve_annotation.induct) (auto simp: placeholder_def)

lemma resolve_annotation_id: "\<not> placeholder t \<Longrightarrow> resolve_annotation t = t"
  by (induction t rule: resolve_annotation.induct) (auto simp: placeholder_def)

lemma placeholder_wrap_optional [simp]: "placeholder (wrap_optional b t) = placeholder t"
  by (simp add: placeholder_def)

lemma django_definition_Some:
  "django_definition f = (Some d, f1) \<Longrightarrow> f1 = f\<lparr>f_django_definition := Some d\<rparr>"
  by (auto simp: django_definition_def split: option.splits object_definition.splits)

lemma django_definition_None:
  "django_definition f = (None, f1) \<Longrightarrow> f1 = f"
  by (auto simp: django_definition_def split: option.splits object_definition.splits)

lemma django_definition_cached:
  "f_django_definition g = Some d \<Longrightarrow> django_definition g = (Some d, g)"
  by (simp add: django_definition_def)

lemma resolve_depth_stable:
  assumes "f_type_annotation g = Some t" "\<not> placeholder t" "f_django_definition g = Some d"
  shows "resolve_depth (Suc n) H g = Inr (Resolved t, g)"
proof -
  have "t \<noteq> StrawberryAuto" using assms(2) by (auto simp: placeholder_def)
  moreover have "resolve_annotation t = t" using assms(2) by (rule resolve_annotation_id)
  moreover have "unwrap_type t \<noteq> AnyT" "unwrap_type t \<noteq> StrawberryAuto"
    using assms(2) by (auto simp: placeholder_def)
  ultimately show ?thesis
    using assms(1) django_definition_cached [OF assms(3)]
    by (simp add: super_resolve_type_def auto_to_unresolved_def)
qed

lemma resolve_depth_consult:
  assumes "f_type_annotation g = Some t" "placeholder t"
      and "django_definition g = (Some dd, g1)"
      and "get_model_field H (dd_model dd) (lookup_name g1) = Some model_attr"
      and "resolve_model_field_type H (type_source (f_python_name g1) model_attr) (dd_info dd)
             = Inr rt"
  shows "resolve_depth (Suc n) H g =
           (case resolve_depth n H
                   (g1\<lparr>f_lookups := Suc (f_lookups g1),
                       f_type_annotation := Some (wrap_optional
                         (is_optional H model_attr (dd_is_input dd) (dd_is_partial dd)) rt)\<rparr>) of
              Inl e \<Rightarrow> Inl e
            | Inr (r, f3) \<Rightarrow> Inr (auto_to_unresolved r, f3))"
proof -
  have "placeholder (resolve_annotation t)" using assms(2) by simp
  then have "unwrap_type (resolve_annotation t) = AnyT
      \<or> unwrap_type (resolve_annotation t) = StrawberryAuto"
    by (simp add: placeholder_def)
  then show ?thesis
    using assms(1,3,4,5) by (simp add: super_resolve_type_def)
qed

lemma resolve_depth_consult_ok:
  assumes "f_type_annotation g = Some t" "placeholder t"
      and "django_definition g = (Some dd, g1)"
      and "get_model_field H (dd_model dd) (lookup_name g1) = Some model_attr"
      and "resolve_model_field_type H (type_source (f_python_name g1) model_attr) (dd_info dd)
             = Inr rt"
      and "\<not> placeholder rt"
  shows "resolve_depth (Suc (Suc n)) H g =
           Inr (Resolved (wrap_optional
                   (is_optional H model_attr (dd_is_input dd) (dd_is_partial dd)) rt),
                g1\<lparr>f_lookups := Suc (f_lookups g1),
                    f_type_annotation := Some (wrap_optional
                      (is_optional H model_attr (dd_is_input dd) (dd_is_partial dd)) rt)\<rparr>)"
proof -
  let ?t' = "wrap_optional (is_optional H model_attr (dd_is_input dd) (dd_is_partial dd)) rt"
  let ?g2 = "g1\<lparr>f_lookups := Suc (f_lookups g1), f_type_annotation := Some ?t'\<rparr>"
  have g1: "g1 = g\<lparr>f_django_definition := Some dd\<rparr>"
    using assms(3) by (rule django_definition_Some)
  have np: "\<not> placeholder ?t'" using assms(6) by simp
  have "resolve_depth (Suc n) H ?g2 = Inr (Resolved ?t', ?g2)"
    using np by (intro resolve_depth_stable [where d = dd]) (auto simp: g1)
  moreover have "?t' \<noteq> StrawberryAuto"
  proof
    assume "?t' = StrawberryAuto"
    then have "placeholder ?t'" by (simp add: placeholder_def)
    then show False using np by simp
  qed
  ultimately show ?thesis
    using resolve_depth_consult [OF assms(1-5), of "Suc n"]
    by (simp add: auto_to_unresolved_def)
qed

lemma resolve_depth_recurses:
  assumes "f_type_annotation g = Some t" "placeholder t"
      and "django_definition g = (Some dd, g1)"
      and "get_model_field H (dd_model dd) (lookup_name g1) = Some model_attr"
      and "resolve_model_field_type H (type_source (f_python_name g1) model_attr) (dd_info dd)
             = Inr rt"
      and "placeholder rt"
  shows "resolve_depth n H g = Inl RecursionError"
  using assms
proof (induction n arbitrary: g g1 t)
  case 0
  then show ?case by simp
next
  case (Suc n)
  let ?t' = "wrap_optional (is_optional H model_attr (dd_is_input dd) (dd_is_partial dd)) rt"
  let ?g2 = "g1\<lparr>f_lookups := Suc (f_lookups g1), f_type_annotation := Some ?t'\<rparr>"
  have g1: "g1 = g\<lparr>f_django_definition := Some dd\<rparr>"
    using Suc.prems(3) by (rule django_definition_Some)
  have dd2: "django_definition ?g2 = (Some dd, ?g2)"
    by (intro django_definition_cached) (simp add: g1)
  have names: "lookup_name ?g2 = lookup_name g1" "f_python_name ?g2 = f_python_name g1"
    by (simp_all add: lookup_name_def split: option.splits)
  have "resolve_depth n H ?g2 = Inl RecursionError"
  proof (rule Suc.IH [where t = ?t' and ?g1.0 = ?g2])
    show "f_type_annotation ?g2 = Some ?t'" by simp
    show "placeholder ?t'" using Suc.prems(6) by simp
    show "django_definition ?g2 = (Some dd, ?g2)" by (rule dd2)
    show "get_model_field H (dd_model dd) (lookup_name ?g2) = Some model_attr"
      using Suc.prems(4) names by simp
    show "resolve_model_field_type H (type_source (f_python_name ?g2) model_attr) (dd_info dd)
             = Inr rt"
      using Suc.prems(5) names by simp
    show "placeholder rt" by (rule Suc.prems(6))
  qed
  then show ?case
    using resolve_depth_consult [OF Suc.prems(1-5), of n] by simp
qed

text \<open>
  C5. When \<open>resolve_type\<close> returns, a second call returns the same type and
  leaves the field as the first call left it, so every later call does; the
  model is looked up at most once; and the annotation of the field either stays
  as it was or goes, once, from a placeholder to a type that is none, which is
  the type returned. The types that \<open>resolve_model_field_type\<close> gives are
  taken to be no placeholders, as section 4.1 of the specification describes
  them.
\<close>

theorem resolve_type_idempotent:
  assumes "resolve_type H f = Inr (r, f')"
      and "\<forall>a i t. resolve_model_field_type H a i = Inr t \<longrightarrow>
             unwrap_type t \<noteq> StrawberryAuto \<and> unwrap_type t \<noteq> AnyT"
  shows "resolve_type H f' = Inr (r, f')
       \<and> f_lookups f' \<le> f_lookups f + 1
       \<and> (f_type_annotation f' = f_type_annotation f
          \<or> (\<exists>t t'. f_type_annotation f = Some t \<and> f_type_annotation f' = Some t'
                \<and> (unwrap_type t = StrawberryAuto \<or> unwrap_type t = AnyT)
                \<and> unwrap_type t' \<noteq> StrawberryAuto \<and> unwrap_type t' \<noteq> AnyT
                \<and> r = Resolved t'))"
proof -
  obtain n where N: "recursion_limit H = Suc n"
    using assms(1) by (cases "recursion_limit H") (auto simp: resolve_type_def)
  have first: "resolve_depth (Suc n) H f = Inr (r, f')"
    using assms(1) N by (simp add: resolve_type_def)
  show ?thesis
  proof (cases "f_type_annotation f")
    case None
    then have "r = UNRESOLVED" "f' = f"
      using first by (auto simp: super_resolve_type_def)
    then show ?thesis using assms(1) by simp
  next
    case (Some t)
    obtain d f1 where dd: "django_definition f = (d, f1)" by (cases "django_definition f")
    show ?thesis
    proof (cases d)
      case None
      then have "f1 = f" using dd django_definition_None by blast
      then have "f' = f"
        using first Some dd None by (auto simp: super_resolve_type_def)
      then show ?thesis using assms(1) by simp
    next
      case (Some django_def)
      note d = this
      have f1: "f1 = f\<lparr>f_django_definition := Some django_def\<rparr>"
        using dd d django_definition_Some by blast
      show ?thesis
      proof (cases "placeholder t")
        case False
        have "resolve_depth (Suc n) H f = Inr (Resolved t, f1)"
        proof -
          have "t \<noteq> StrawberryAuto" using False by (auto simp: placeholder_def)
          moreover have "resolve_annotation t = t" using False by (rule resolve_annotation_id)
          moreover have "unwrap_type t \<noteq> AnyT" "unwrap_type t \<noteq> StrawberryAuto"
            using False by (auto simp: placeholder_def)
          ultimately show ?thesis
            using \<open>f_type_annotation f = Some t\<close> dd d
            by (simp add: super_resolve_type_def auto_to_unresolved_def)
        qed
        then have res: "r = Resolved t" "f' = f1" using first by simp_all
        have "resolve_depth (Suc n) H f1 = Inr (Resolved t, f1)"
          using \<open>f_type_annotation f = Some t\<close> False f1
          by (intro resolve_depth_stable [where d = django_def]) auto
        then show ?thesis using res f1 N by (simp add: resolve_type_def)
      next
        case True
        then have ph: "unwrap_type t = StrawberryAuto \<or> unwrap_type t = AnyT"
          by (auto simp: placeholder_def)
        have ph': "unwrap_type (resolve_annotation t) = AnyT
            \<or> unwrap_type (resolve_annotation t) = StrawberryAuto"
          using True placeholder_resolve_annotation [of t] by (simp add: placeholder_def)
        from first \<open>f_type_annotation f = Some t\<close> dd d ph'
        obtain model_field rt where
          mf: "get_model_field H (dd_model django_def) (lookup_name f1) = Some model_field"
          and rt: "resolve_model_field_type H (type_source (f_python_name f1) model_field)
                     (dd_info django_def) = Inr rt"
          by (auto simp: super_resolve_type_def split: option.splits sum.splits)
        define t' where "t' = wrap_optional (is_optional H model_field (dd_is_input django_def)
                     (dd_is_partial django_def)) rt"
        define f2 where "f2 = f1\<lparr>f_lookups := Suc (f_lookups f1), f_type_annotation := Some t'\<rparr>"
        have nrt: "\<not> placeholder rt" using assms(2) rt by (auto simp: placeholder_def)
        have conc: "unwrap_type t' \<noteq> StrawberryAuto" "unwrap_type t' \<noteq> AnyT"
          using assms(2) rt by (auto simp: t'_def)
        have np: "\<not> placeholder t'" using conc by (simp add: placeholder_def)
        obtain m where n: "n = Suc m"
          using first resolve_depth_consult [OF \<open>f_type_annotation f = Some t\<close> True
              dd [unfolded d] mf rt, of n]
          by (cases n) auto
        have res: "resolve_depth (Suc n) H f = Inr (Resolved t', f2)"
          using resolve_depth_consult_ok [OF \<open>f_type_annotation f = Some t\<close> True
              dd [unfolded d] mf rt nrt, of m]
          by (simp add: n t'_def f2_def)
        then have rf: "r = Resolved t'" "f' = f2" using first by simp_all
        have "resolve_depth (Suc n) H f2 = Inr (Resolved t', f2)"
          using np by (intro resolve_depth_stable [where d = django_def]) (auto simp: f2_def f1)
        moreover have "f_lookups f2 \<le> f_lookups f + 1" by (simp add: f2_def f1)
        moreover have "f_type_annotation f2 = Some t'" by (simp add: f2_def)
        ultimately show ?thesis
          using rf \<open>f_type_annotation f = Some t\<close> ph conc N
          by (auto simp: resolve_type_def)
      qed
    qed
  qed
qed


lemma example_limit: "recursion_limit example_helpers = Suc (Suc 998)"
  by (simp add: example_helpers_def)

theorem resolve_type_idempotent_witness:
  "resolve_type example_helpers (declared_field BookModel ''author_id'' StrawberryAuto)
     = Inr (Resolved (Plain ''ID''),
            (declared_field BookModel ''author_id'' StrawberryAuto)
              \<lparr> f_type_annotation := Some (Plain ''ID''),
                f_django_definition :=
                  Some \<lparr> dd_model = BookModel, dd_is_input = False, dd_is_partial = False,
                         dd_is_filter = FilterFlag False \<rparr>,
                f_lookups := 1 \<rparr>)
   \<and> resolve_type example_helpers
       ((declared_field BookModel ''author_id'' StrawberryAuto)
              \<lparr> f_type_annotation := Some (Plain ''ID''),
                f_django_definition :=
                  Some \<lparr> dd_model = BookModel, dd_is_input = False, dd_is_partial = False,
                         dd_is_filter = FilterFlag False \<rparr>,
                f_lookups := 1 \<rparr>)
     = Inr (Resolved (Plain ''ID''),
            (declared_field BookModel ''author_id'' StrawberryAuto)
              \<lparr> f_type_annotation := Some (Plain ''ID''),
                f_django_definition :=
                  Some \<lparr> dd_model = BookModel, dd_is_input = False, dd_is_partial = False,
                         dd_is_filter = FilterFlag False \<rparr>,
                f_lookups := 1 \<rparr>)"
proof -
  let ?dd = "\<lparr> dd_model = BookModel, dd_is_input = False, dd_is_partial = False,
                         dd_is_filter = FilterFlag False \<rparr>"
  let ?f = "declared_field BookModel ''author_id'' StrawberryAuto"
  let ?f1 = "?f\<lparr>f_django_definition := Some ?dd\<rparr>"
  let ?attr = "ModelField ''author'' False False False False True
            (Some (ModelField ''id'' False False True True False None))"
  have 1: "f_type_annotation ?f = Some StrawberryAuto" by (simp add: declared_field_def)
  have 2: "placeholder StrawberryAuto" by (simp add: placeholder_def)
  have 3: "django_definition ?f = (Some ?dd, ?f1)"
    by (simp add: django_definition_def declared_field_def)
  have 4: "get_model_field example_helpers (dd_model ?dd) (lookup_name ?f1) = Some ?attr"
    by (simp add: ex_defs lookup_name_def)
  have 5: "resolve_model_field_type example_helpers
             (type_source (f_python_name ?f1) ?attr) (dd_info ?dd) = Inr (Plain ''ID'')"
    by (simp add: ex_defs type_source_def endswith_def)
  have 6: "\<not> placeholder (Plain ''ID'')" by (simp add: placeholder_def)
  have a: "resolve_type example_helpers ?f
     = Inr (Resolved (Plain ''ID''),
            ?f\<lparr> f_type_annotation := Some (Plain ''ID''),
                f_django_definition := Some ?dd, f_lookups := 1 \<rparr>)"
    using resolve_depth_consult_ok [OF 1 2 3 4 5 6, of 998]
    by (simp add: resolve_type_def example_limit wrap_optional_def spec_is_optional_def
        example_helpers_def declared_field_def)
  have b: "\<forall>a i t. resolve_model_field_type example_helpers a i = Inr t \<longrightarrow>
             unwrap_type t \<noteq> StrawberryAuto \<and> unwrap_type t \<noteq> AnyT"
    by (auto simp: example_helpers_def)
  from resolve_type_idempotent [OF a b] a show ?thesis by simp
qed



section \<open>Identifier fields of foreign keys\<close>

lemma target_smaller: "foreign_key a = Some t \<Longrightarrow> size t < size a"
  by (cases a) auto

lemma target_differs: "foreign_key a = Some t \<Longrightarrow> t \<noteq> a"
  using target_smaller by blast

lemma fk_independent:
  assumes "foreign_key model_attr = Some target_field"
      and "endswith (python_name_of f) ''_id''"
      and "get_model_field H (ext_model ext) (model_name_of f) = Some model_attr"
  shows "get_model_attrs
           (H\<lparr>resolve_model_field_type :=
                (resolve_model_field_type H)(model_attr := relation_type)\<rparr>) ext f
         = get_model_attrs H ext f"
  using assms target_differs [OF assms(1)]
  by (auto simp: get_model_attrs_def Let_def type_source_def split: sum.splits)

text \<open>
  C3. For an auto field whose python name ends in \<open>_id\<close> and whose model
  attribute is a foreign key, the type that is resolved is that of the target
  field of the relation, the key of the related entity, and not that of the
  relation: \<open>resolve_model_field_type\<close> is applied to the target field, and
  what it would give for the relation itself changes nothing. The annotation
  of the field is this key type, wrapped in an optional when the relation
  attribute is optional (C1). This holds in \<open>_get_model_attrs\<close> and in
  \<open>resolve_type\<close> alike: whenever \<open>resolve_type\<close> returns after it has
  consulted the model, the type it returns and the annotation it leaves are
  this one, and it does return when the key type is no placeholder and the
  interpreter allows two nested calls.
\<close>

theorem fk_id_resolves_to_target_key:
  assumes "foreign_key model_attr = Some target_field"
  shows "(endswith (python_name_of f) ''_id''
          \<and> get_model_field H (ext_model ext) (model_name_of f) = Some model_attr
          \<and> resolve_model_field_type H target_field (ext_info ext) = Inr key_type
          \<longrightarrow> type_source (python_name_of f) model_attr = target_field
            \<and> (\<exists>a. get_model_attrs H ext f = Inr a
                 \<and> a_type_annotation a =
                     (if is_optional H model_attr (ext_is_input ext) (ext_is_partial ext)
                      then StrawberryOptional key_type else key_type)))
       \<and> (endswith (python_name_of f) ''_id''
          \<and> get_model_field H (ext_model ext) (model_name_of f) = Some model_attr
          \<longrightarrow> get_model_attrs
                (H\<lparr>resolve_model_field_type :=
                     (resolve_model_field_type H)(model_attr := relation_type)\<rparr>) ext f
              = get_model_attrs H ext f)
       \<and> (endswith (f_python_name g) ''_id''
          \<and> f_type_annotation g = Some t
          \<and> (unwrap_type t = StrawberryAuto \<or> unwrap_type t = AnyT)
          \<and> django_definition g = (Some dd, g1)
          \<and> get_model_field H (dd_model dd) (lookup_name g1) = Some model_attr
          \<and> resolve_model_field_type H target_field (dd_info dd) = Inr key_type
          \<longrightarrow> (\<forall>r g'. resolve_type H g = Inr (r, g') \<longrightarrow>
                  r = Resolved
                     (if is_optional H model_attr (dd_is_input dd) (dd_is_partial dd)
                      then StrawberryOptional key_type else key_type)
                  \<and> f_type_annotation g' = Some
                     (if is_optional H model_attr (dd_is_input dd) (dd_is_partial dd)
                      then StrawberryOptional key_type else key_type))
            \<and> (2 \<le> recursion_limit H
                \<and> unwrap_type key_type \<noteq> StrawberryAuto \<and> unwrap_type key_type \<noteq> AnyT
                \<longrightarrow> (\<exists>r g'. resolve_type H g = Inr (r, g')
                       \<and> f_type_annotation g' = Some
                           (if is_optional H model_attr (dd_is_input dd) (dd_is_partial dd)
                            then StrawberryOptional key_type else key_type))))"
proof (intro conjI impI)
  assume h: "endswith (python_name_of f) ''_id''
          \<and> get_model_field H (ext_model ext) (model_name_of f) = Some model_attr
          \<and> resolve_model_field_type H target_field (ext_info ext) = Inr key_type"
  show "type_source (python_name_of f) model_attr = target_field"
    using h assms by (simp add: type_source_def)
  show "\<exists>a. get_model_attrs H ext f = Inr a
                 \<and> a_type_annotation a =
                     (if is_optional H model_attr (ext_is_input ext) (ext_is_partial ext)
                      then StrawberryOptional key_type else key_type)"
    using h assms by (auto simp: get_model_attrs_def Let_def wrap_optional_def type_source_def)
next
  assume "endswith (python_name_of f) ''_id''
          \<and> get_model_field H (ext_model ext) (model_name_of f) = Some model_attr"
  then show "get_model_attrs
                (H\<lparr>resolve_model_field_type :=
                     (resolve_model_field_type H)(model_attr := relation_type)\<rparr>) ext f
              = get_model_attrs H ext f"
    using assms by (intro fk_independent) auto
next
  let ?K = "wrap_optional (is_optional H model_attr (dd_is_input dd) (dd_is_partial dd)) key_type"
  let ?g2 = "g1\<lparr>f_lookups := Suc (f_lookups g1), f_type_annotation := Some ?K\<rparr>"
  assume h: "endswith (f_python_name g) ''_id''
          \<and> f_type_annotation g = Some t
          \<and> (unwrap_type t = StrawberryAuto \<or> unwrap_type t = AnyT)
          \<and> django_definition g = (Some dd, g1)
          \<and> get_model_field H (dd_model dd) (lookup_name g1) = Some model_attr
          \<and> resolve_model_field_type H target_field (dd_info dd) = Inr key_type"
  have pn: "f_python_name g1 = f_python_name g"
    using h django_definition_Some [of g dd g1] by auto
  have ts: "type_source (f_python_name g1) model_attr = target_field"
    using h assms pn by (simp add: type_source_def)
  have 1: "f_type_annotation g = Some t" and 2: "placeholder t"
    and 3: "django_definition g = (Some dd, g1)"
    and 4: "get_model_field H (dd_model dd) (lookup_name g1) = Some model_attr"
    and 5: "resolve_model_field_type H (type_source (f_python_name g1) model_attr) (dd_info dd)
             = Inr key_type"
    using h ts by (auto simp: placeholder_def)
  have K: "?K = (if is_optional H model_attr (dd_is_input dd) (dd_is_partial dd)
                      then StrawberryOptional key_type else key_type)"
    by (simp add: wrap_optional_def)
  have ok: "\<not> placeholder key_type \<Longrightarrow>
      resolve_depth (Suc (Suc n)) H g = Inr (Resolved ?K, ?g2)" for n
    using resolve_depth_consult_ok [OF 1 2 3 4 5] by simp
  show "\<forall>r g'. resolve_type H g = Inr (r, g') \<longrightarrow>
                  r = Resolved
                     (if is_optional H model_attr (dd_is_input dd) (dd_is_partial dd)
                      then StrawberryOptional key_type else key_type)
                  \<and> f_type_annotation g' = Some
                     (if is_optional H model_attr (dd_is_input dd) (dd_is_partial dd)
                      then StrawberryOptional key_type else key_type)"
  proof (intro allI impI)
    fix r g'
    assume ret: "resolve_type H g = Inr (r, g')"
    have np: "\<not> placeholder key_type"
    proof
      assume "placeholder key_type"
      then have "resolve_depth (recursion_limit H) H g = Inl RecursionError"
        by (intro resolve_depth_recurses [OF 1 2 3 4 5])
      then show False using ret by (simp add: resolve_type_def)
    qed
    obtain n where n: "recursion_limit H = Suc n"
      using ret by (cases "recursion_limit H") (auto simp: resolve_type_def)
    obtain m where m: "n = Suc m"
      using ret n resolve_depth_consult [OF 1 2 3 4 5, of n]
      by (cases n) (auto simp: resolve_type_def)
    have "resolve_type H g = Inr (Resolved ?K, ?g2)"
      using ok [OF np, of m] n m by (simp add: resolve_type_def)
    then have "r = Resolved ?K" "g' = ?g2" using ret by simp_all
    then show "r = Resolved
                     (if is_optional H model_attr (dd_is_input dd) (dd_is_partial dd)
                      then StrawberryOptional key_type else key_type)
                  \<and> f_type_annotation g' = Some
                     (if is_optional H model_attr (dd_is_input dd) (dd_is_partial dd)
                      then StrawberryOptional key_type else key_type)"
      using K by simp
  qed
  assume lim: "2 \<le> recursion_limit H
                \<and> unwrap_type key_type \<noteq> StrawberryAuto \<and> unwrap_type key_type \<noteq> AnyT"
  then obtain m where m: "recursion_limit H = Suc (Suc m)"
    by (metis One_nat_def Suc_le_D Suc_le_mono numeral_2_eq_2)
  have np: "\<not> placeholder key_type" using lim by (simp add: placeholder_def)
  have "resolve_type H g = Inr (Resolved ?K, ?g2)"
    using ok [OF np, of m] m by (simp add: resolve_type_def)
  then show "\<exists>r g'. resolve_type H g = Inr (r, g')
                       \<and> f_type_annotation g' = Some
                           (if is_optional H model_attr (dd_is_input dd) (dd_is_partial dd)
                            then StrawberryOptional key_type else key_type)"
    using K by simp
qed

theorem fk_id_resolves_to_target_key_witness:
  "foreign_key (ModelField ''editor'' True False False False True
            (Some (ModelField ''id'' False False True True False None)))
     = Some (ModelField ''id'' False False True True False None)
   \<and> endswith (python_name_of (auto_field ''editor_id'')) ''_id''
   \<and> (\<exists>a. get_model_attrs example_helpers (example_extension BookModel False False)
             (auto_field ''editor_id'') = Inr a
          \<and> a_type_annotation a = StrawberryOptional (Plain ''ID''))
   \<and> 2 \<le> recursion_limit example_helpers
   \<and> (\<exists>r g'. resolve_type example_helpers (declared_field BookModel ''editor_id'' StrawberryAuto)
               = Inr (r, g')
          \<and> f_type_annotation g' = Some (StrawberryOptional (Plain ''ID'')))"
proof -
  let ?attr = "ModelField ''editor'' True False False False True
            (Some (ModelField ''id'' False False True True False None))"
  let ?tf = "ModelField ''id'' False False True True False None"
  let ?dd = "\<lparr> dd_model = BookModel, dd_is_input = False, dd_is_partial = False,
                         dd_is_filter = FilterFlag False \<rparr>"
  let ?g = "declared_field BookModel ''editor_id'' StrawberryAuto"
  have a: "foreign_key ?attr = Some ?tf" by simp
  have b: "endswith (python_name_of (auto_field ''editor_id'')) ''_id''
          \<and> get_model_field example_helpers (ext_model (example_extension BookModel False False))
               (model_name_of (auto_field ''editor_id'')) = Some ?attr
          \<and> resolve_model_field_type example_helpers ?tf
               (ext_info (example_extension BookModel False False)) = Inr (Plain ''ID'')"
    by (simp add: ex_defs python_name_of_def model_name_of_def endswith_def)
  have c: "endswith (f_python_name ?g) ''_id''
          \<and> f_type_annotation ?g = Some StrawberryAuto
          \<and> (unwrap_type StrawberryAuto = StrawberryAuto \<or> unwrap_type StrawberryAuto = AnyT)
          \<and> django_definition ?g = (Some ?dd, ?g\<lparr>f_django_definition := Some ?dd\<rparr>)
          \<and> get_model_field example_helpers (dd_model ?dd)
               (lookup_name (?g\<lparr>f_django_definition := Some ?dd\<rparr>)) = Some ?attr
          \<and> resolve_model_field_type example_helpers ?tf (dd_info ?dd) = Inr (Plain ''ID'')"
    by (simp add: ex_defs endswith_def django_definition_def lookup_name_def)
  have d: "2 \<le> recursion_limit example_helpers
      \<and> unwrap_type (Plain ''ID'') \<noteq> StrawberryAuto \<and> unwrap_type (Plain ''ID'') \<noteq> AnyT"
    by (simp add: example_helpers_def)
  from fk_id_resolves_to_target_key [OF a,
      where f = "auto_field ''editor_id''" and H = example_helpers
        and ext = "example_extension BookModel False False" and key_type = "Plain ''ID''"
        and g = ?g and t = StrawberryAuto and dd = ?dd
        and ?g1.0 = "?g\<lparr>f_django_definition := Some ?dd\<rparr>"]
    a b c d
  show ?thesis by (simp add: spec_is_optional_def example_helpers_def example_extension_def)
qed

section \<open>Properties of \<open>django_type\<close>\<close>

lemma resolve_depth_plain:
  assumes "f_type_annotation g = Some t" "\<not> placeholder t"
      and "django_definition g = (d, g1)"
  shows "resolve_depth (Suc n) H g = Inr (Resolved t, g1)"
proof -
  have "t \<noteq> StrawberryAuto" using assms(2) by (auto simp: placeholder_def)
  moreover have "resolve_annotation t = t" using assms(2) by (rule resolve_annotation_id)
  moreover have "unwrap_type t \<noteq> AnyT" "unwrap_type t \<noteq> StrawberryAuto"
    using assms(2) by (auto simp: placeholder_def)
  ultimately show ?thesis
    using assms(1,3)
    by (cases d) (simp_all add: super_resolve_type_def auto_to_unresolved_def)
qed

lemma origin_list_django: "t \<in> set (origin_list ts) \<Longrightarrow> has_django_definition t"
  by (simp add: origin_list_def)

lemma django_type_body_union:
  "django_type_body (Resolved (StrawberryUnion ts)) =
     Inr (case origin_list ts of [t] \<Rightarrow> Some t | _ \<Rightarrow> None)"
proof -
  have "django_type_body (Resolved (StrawberryUnion ts)) =
     Inr (django_or_none (case origin_list ts of [t] \<Rightarrow> Some t | _ \<Rightarrow> None))"
    by (simp add: django_type_body_def)
  moreover have "django_or_none (case origin_list ts of [t] \<Rightarrow> Some t | _ \<Rightarrow> None)
      = (case origin_list ts of [t] \<Rightarrow> Some t | _ \<Rightarrow> None)"
    using origin_list_django [of _ ts] by (auto split: list.splits)
  ultimately show ?thesis by simp
qed

text \<open>
  C2, as the claim states it, fails: for a field whose type is a union with two
  model-backed members, \<open>on_field\<close> returns the field and \<open>django_type\<close>
  returns \<open>None\<close>. No error is raised, neither when the class is decorated nor
  when the property is read.
\<close>

theorem ambiguous_union_counterexample:
  "on_field example_helpers (example_extension BookModel False False)
     (declared_field BookModel ''item''
        (StrawberryUnion [ObjectType ''Fruit'' True None,
           StrawberryOptional (ObjectType ''Color'' True None), Plain ''int'']))
   = Inr ((declared_field BookModel ''item''
        (StrawberryUnion [ObjectType ''Fruit'' True None,
           StrawberryOptional (ObjectType ''Color'' True None), Plain ''int'']))
       \<lparr> f_django_definition :=
                  Some \<lparr> dd_model = BookModel, dd_is_input = False, dd_is_partial = False,
                         dd_is_filter = FilterFlag False \<rparr> \<rparr>)
   \<and> django_type example_helpers
     (declared_field BookModel ''item''
        (StrawberryUnion [ObjectType ''Fruit'' True None,
           StrawberryOptional (ObjectType ''Color'' True None), Plain ''int'']))
   = Inr (None,
       (declared_field BookModel ''item''
        (StrawberryUnion [ObjectType ''Fruit'' True None,
           StrawberryOptional (ObjectType ''Color'' True None), Plain ''int'']))
       \<lparr> f_django_definition :=
                  Some \<lparr> dd_model = BookModel, dd_is_input = False, dd_is_partial = False,
                         dd_is_filter = FilterFlag False \<rparr>,
         c_django_type := Some None \<rparr>)"
proof -
  let ?u = "StrawberryUnion [ObjectType ''Fruit'' True None,
           StrawberryOptional (ObjectType ''Color'' True None), Plain ''int'']"
  let ?dd = "\<lparr> dd_model = BookModel, dd_is_input = False, dd_is_partial = False,
                         dd_is_filter = FilterFlag False \<rparr>"
  let ?f = "declared_field BookModel ''item'' ?u"
  have r: "resolve_type example_helpers ?f
      = Inr (Resolved ?u, ?f\<lparr>f_django_definition := Some ?dd\<rparr>)"
  proof -
    have 1: "f_type_annotation ?f = Some ?u" by (simp add: declared_field_def)
    have 2: "\<not> placeholder ?u" by (simp add: placeholder_def)
    have 3: "django_definition ?f = (Some ?dd, ?f\<lparr>f_django_definition := Some ?dd\<rparr>)"
      by (simp add: django_definition_def declared_field_def)
    show ?thesis
      using resolve_depth_plain [OF 1 2 3, of "Suc 998" example_helpers]
      by (simp add: resolve_type_def example_limit)
  qed
  have a: "on_field example_helpers (example_extension BookModel False False) ?f
      = Inr (?f\<lparr>f_django_definition := Some ?dd\<rparr>)"
    using r by (simp add: on_field_def read_type_def declared_field_def
        example_extension_def input_default_def apply_attrs_def plain_annotation_def)
  have b: "django_type example_helpers ?f
      = Inr (None, ?f\<lparr>f_django_definition := Some ?dd, c_django_type := Some None\<rparr>)"
    using r by (simp add: django_type_def field_type_def django_type_body_def
        origin_list_def declared_field_def)
  from a b show ?thesis by simp
qed

text \<open>
  C2, amended. For a field whose declared type is a union, \<open>django_type\<close>
  raises nothing: it is the one model-backed member of the union (the containers
  around it stripped) when there is exactly one, and \<open>None\<close> when there are
  none or several; and decorating the field raises nothing either.
\<close>

theorem union_resolution_is_silent:
  "django_type_body (Resolved (StrawberryUnion ts)) =
     Inr (case origin_list ts of [t] \<Rightarrow> Some t | _ \<Rightarrow> None)
   \<and> (length (origin_list ts) \<noteq> 1 \<longrightarrow>
        django_type_body (Resolved (StrawberryUnion ts)) = Inr None)
   \<and> (read_type H f = Inr (Resolved (StrawberryUnion ts), f') \<longrightarrow>
        (\<exists>g. on_field H ext f = Inr g))"
proof -
  have "length (origin_list ts) \<noteq> 1 \<longrightarrow>
        (case origin_list ts of [t] \<Rightarrow> Some t | _ \<Rightarrow> None) = None"
    by (auto split: list.splits)
  moreover have "read_type H f = Inr (Resolved (StrawberryUnion ts), f') \<longrightarrow>
        (\<exists>g. on_field H ext f = Inr g)"
    by (auto simp: on_field_def)
  ultimately show ?thesis using django_type_body_union [of ts] by simp
qed

theorem union_resolution_is_silent_witness:
  "length (origin_list [ObjectType ''Fruit'' True None,
           StrawberryOptional (ObjectType ''Color'' True None), Plain ''int'']) \<noteq> 1
   \<and> django_type_body (Resolved (StrawberryUnion [ObjectType ''Fruit'' True None,
           StrawberryOptional (ObjectType ''Color'' True None), Plain ''int''])) = Inr None
   \<and> django_type_body (Resolved (StrawberryUnion [ObjectType ''Fruit'' True None,
           StrawberryOptional (Plain ''str''), Plain ''int'']))
       = Inr (Some (ObjectType ''Fruit'' True None))
   \<and> read_type example_helpers
        ((auto_field ''item'')\<lparr>f_type := StrawberryUnion [ObjectType ''Fruit'' True None,
           StrawberryOptional (ObjectType ''Color'' True None), Plain ''int'']\<rparr>)
       = Inr (Resolved (StrawberryUnion [ObjectType ''Fruit'' True None,
           StrawberryOptional (ObjectType ''Color'' True None), Plain ''int'']),
              (auto_field ''item'')\<lparr>f_type := StrawberryUnion [ObjectType ''Fruit'' True None,
           StrawberryOptional (ObjectType ''Color'' True None), Plain ''int'']\<rparr>)
   \<and> (\<exists>g. on_field example_helpers (example_extension BookModel False False)
        ((auto_field ''item'')\<lparr>f_type := StrawberryUnion [ObjectType ''Fruit'' True None,
           StrawberryOptional (ObjectType ''Color'' True None), Plain ''int'']\<rparr>) = Inr g)"
proof -
  let ?u = "StrawberryUnion [ObjectType ''Fruit'' True None,
           StrawberryOptional (ObjectType ''Color'' True None), Plain ''int'']"
  let ?f = "(auto_field ''item'')\<lparr>f_type := ?u\<rparr>"
  have a: "length (origin_list [ObjectType ''Fruit'' True None,
           StrawberryOptional (ObjectType ''Color'' True None), Plain ''int'']) \<noteq> 1"
    by (simp add: origin_list_def)
  have b: "origin_list [ObjectType ''Fruit'' True None,
           StrawberryOptional (Plain ''str''), Plain ''int''] = [ObjectType ''Fruit'' True None]"
    by (simp add: origin_list_def)
  have r: "read_type example_helpers ?f = Inr (Resolved ?u, ?f)"
    by (simp add: read_type_def auto_field_def)
  note t1 = union_resolution_is_silent [of "[ObjectType ''Fruit'' True None,
           StrawberryOptional (ObjectType ''Color'' True None), Plain ''int'']"
           example_helpers ?f ?f "example_extension BookModel False False"]
  have c: "django_type_body (Resolved ?u) = Inr None"
    using a t1 by blast
  have e: "\<exists>g. on_field example_helpers (example_extension BookModel False False) ?f = Inr g"
    using r t1 by blast
  have d: "django_type_body (Resolved (StrawberryUnion [ObjectType ''Fruit'' True None,
           StrawberryOptional (Plain ''str''), Plain ''int'']))
       = Inr (Some (ObjectType ''Fruit'' True None))"
    using b union_resolution_is_silent [of "[ObjectType ''Fruit'' True None,
           StrawberryOptional (Plain ''str''), Plain ''int'']"
           example_helpers ?f ?f "example_extension BookModel False False"]
    by simp
  from a c d r e show ?thesis by blast
qed

section \<open>Properties of the derived flags\<close>

lemma resolve_depth_keeps_relation:
  "resolve_depth n H f = Inr (r, f') \<Longrightarrow> f_is_relation f' = f_is_relation f"
proof (induction n arbitrary: f r f')
  case 0
  then show ?case by simp
next
  case (Suc n)
  show ?case
  proof (cases "f_type_annotation f")
    case None
    then show ?thesis using Suc.prems by (auto simp: super_resolve_type_def)
  next
    case (Some t)
    obtain d f1 where dd: "django_definition f = (d, f1)" by (cases "django_definition f")
    have f1: "f_is_relation f1 = f_is_relation f"
      using dd by (auto simp: django_definition_def split: option.splits object_definition.splits)
    show ?thesis
    proof (cases d)
      case None
      then show ?thesis using Suc.prems Some dd f1 by (auto simp: super_resolve_type_def)
    next
      case (Some django_def)
      show ?thesis
      proof (cases "placeholder (resolve_annotation t)")
        case False
        then show ?thesis
          using Suc.prems \<open>f_type_annotation f = Some t\<close> dd Some f1
          by (auto simp: super_resolve_type_def placeholder_def)
      next
        case True
        then have ph: "unwrap_type (resolve_annotation t) = AnyT
            \<or> unwrap_type (resolve_annotation t) = StrawberryAuto"
          using placeholder_def by blast
        from Suc.prems \<open>f_type_annotation f = Some t\<close> dd Some ph
        obtain mf rt r' where
          inner: "resolve_depth n H
             (f1\<lparr>f_lookups := Suc (f_lookups f1),
                 f_type_annotation := Some (wrap_optional
                    (is_optional H mf (dd_is_input django_def) (dd_is_partial django_def)) rt)\<rparr>)
             = Inr (r', f')"
          by (auto simp: super_resolve_type_def split: option.splits sum.splits)
        from Suc.IH [OF inner] f1 show ?thesis by simp
      qed
    qed
  qed
qed

lemma resolve_type_keeps_relation:
  "resolve_type H f = Inr (r, f') \<Longrightarrow> f_is_relation f' = f_is_relation f"
  unfolding resolve_type_def by (rule resolve_depth_keeps_relation)

text \<open>
  C9, as the claim states it, fails for \<open>is_relation\<close>: the fields \<open>id\<close> and
  \<open>author_id\<close> of a type of \<open>BookModel\<close> resolve to the same type \<open>ID\<close>,
  and \<open>is_relation\<close> is false for the first and true for the second.
\<close>

theorem is_relation_counterexample:
  "on_field example_helpers (example_extension BookModel False False) (auto_field ''id'')
     = Inr ((auto_field ''id'')
              \<lparr> f_kind := DjangoField, f_django_name := Some ''id'',
                f_type_annotation := Some (Plain ''ID''), f_is_relation := False \<rparr>)
   \<and> on_field example_helpers (example_extension BookModel False False)
       (auto_field ''author_id'')
     = Inr ((auto_field ''author_id'')
              \<lparr> f_kind := DjangoField, f_django_name := Some ''author_id'',
                f_type_annotation := Some (Plain ''ID''), f_is_relation := True \<rparr>)
   \<and> map_sum id fst (resolve_type example_helpers
         ((auto_field ''id'')
              \<lparr> f_kind := DjangoField, f_django_name := Some ''id'',
                f_type_annotation := Some (Plain ''ID''), f_is_relation := False \<rparr>))
       = Inr (Resolved (Plain ''ID''))
   \<and> map_sum id fst (resolve_type example_helpers
         ((auto_field ''author_id'')
              \<lparr> f_kind := DjangoField, f_django_name := Some ''author_id'',
                f_type_annotation := Some (Plain ''ID''), f_is_relation := True \<rparr>))
       = Inr (Resolved (Plain ''ID''))
   \<and> \<not> field_is_relation
         ((auto_field ''id'')
              \<lparr> f_kind := DjangoField, f_django_name := Some ''id'',
                f_type_annotation := Some (Plain ''ID''), f_is_relation := False \<rparr>)
   \<and> field_is_relation
         ((auto_field ''author_id'')
              \<lparr> f_kind := DjangoField, f_django_name := Some ''author_id'',
                f_type_annotation := Some (Plain ''ID''), f_is_relation := True \<rparr>)"
proof -
  let ?g1 = "(auto_field ''id'')
              \<lparr> f_kind := DjangoField, f_django_name := Some ''id'',
                f_type_annotation := Some (Plain ''ID''), f_is_relation := False \<rparr>"
  let ?g2 = "(auto_field ''author_id'')
              \<lparr> f_kind := DjangoField, f_django_name := Some ''author_id'',
                f_type_annotation := Some (Plain ''ID''), f_is_relation := True \<rparr>"
  have a: "on_field example_helpers (example_extension BookModel False False)
      (auto_field ''id'') = Inr ?g1"
    by (simp add: on_field_def read_type_def ex_defs gma_defs input_default_def
        apply_attrs_def plain_annotation_def new_field_def)
  have b: "on_field example_helpers (example_extension BookModel False False)
      (auto_field ''author_id'') = Inr ?g2"
    by (simp add: on_field_def read_type_def ex_defs gma_defs input_default_def
        apply_attrs_def plain_annotation_def new_field_def)
  have np: "\<not> placeholder (Plain ''ID'')" by (simp add: placeholder_def)
  have c: "resolve_type example_helpers ?g1 = Inr (Resolved (Plain ''ID''), ?g1)"
  proof -
    have 1: "f_type_annotation ?g1 = Some (Plain ''ID'')" by simp
    have 3: "django_definition ?g1 = (None, ?g1)"
      by (simp add: django_definition_def auto_field_def)
    show ?thesis
      using resolve_depth_plain [OF 1 np 3, of "Suc 998" example_helpers]
      by (simp add: resolve_type_def example_limit)
  qed
  have d: "resolve_type example_helpers ?g2 = Inr (Resolved (Plain ''ID''), ?g2)"
  proof -
    have 1: "f_type_annotation ?g2 = Some (Plain ''ID'')" by simp
    have 3: "django_definition ?g2 = (None, ?g2)"
      by (simp add: django_definition_def auto_field_def)
    show ?thesis
      using resolve_depth_plain [OF 1 np 3, of "Suc 998" example_helpers]
      by (simp add: resolve_type_def example_limit)
  qed
  have e: "\<not> field_is_relation ?g1" "field_is_relation ?g2"
    by (simp_all add: field_is_relation_def)
  from a b c d e show ?thesis by simp
qed

text \<open>
  C9, amended. \<open>is_optional\<close>, \<open>is_list\<close> and \<open>is_connection\<close> are functions
  of the shape of the field's resolved type: \<open>is_optional\<close> holds iff the
  outermost wrapper is an optional, \<open>is_list\<close> and \<open>is_connection\<close> hold iff
  the type, after stripping at most one optional, is a list, respectively a
  subclass of the connection class. \<open>is_relation\<close> is not determined by the
  resolved type: it is an attribute that the field stores, and resolving the
  type leaves it as it is.
\<close>

theorem shape_properties:
  "(is_optional_body r \<longleftrightarrow> (\<exists>t. r = Resolved (StrawberryOptional t)))
   \<and> (is_list_body r \<longleftrightarrow> (\<exists>t. strip_optional r = Resolved (StrawberryList t)))
   \<and> (is_connection_body r \<longleftrightarrow>
        (\<exists>n dj nodes. strip_optional r = Resolved (ObjectType n dj (Some nodes))))
   \<and> (field_type H f = Inr (r, f') \<longrightarrow>
        (c_is_optional f = None \<longrightarrow>
           field_is_optional H f
             = Inr (is_optional_body r, f'\<lparr>c_is_optional := Some (is_optional_body r)\<rparr>))
        \<and> (c_is_list f = None \<longrightarrow>
           field_is_list H f = Inr (is_list_body r, f'\<lparr>c_is_list := Some (is_list_body r)\<rparr>))
        \<and> (c_is_connection f = None \<longrightarrow>
           field_is_connection H f
             = Inr (is_connection_body r,
                    f'\<lparr>c_is_connection := Some (is_connection_body r)\<rparr>))
        \<and> field_is_relation f' = field_is_relation f)"
proof -
  have a: "is_optional_body r \<longleftrightarrow> (\<exists>t. r = Resolved (StrawberryOptional t))"
    by (cases r rule: is_optional_body.cases) auto
  have b: "is_list_body r \<longleftrightarrow> (\<exists>t. strip_optional r = Resolved (StrawberryList t))"
    unfolding is_list_body_def
    by (cases "strip_optional r" rule: isinstance_list.cases) auto
  have c: "is_connection_body r \<longleftrightarrow>
        (\<exists>n dj nodes. strip_optional r = Resolved (ObjectType n dj (Some nodes)))"
    unfolding is_connection_body_def
    by (cases "strip_optional r" rule: subclass_of_connection.cases) auto
  have d: "field_type H f = Inr (r, f') \<longrightarrow>
        (c_is_optional f = None \<longrightarrow>
           field_is_optional H f
             = Inr (is_optional_body r, f'\<lparr>c_is_optional := Some (is_optional_body r)\<rparr>))
        \<and> (c_is_list f = None \<longrightarrow>
           field_is_list H f = Inr (is_list_body r, f'\<lparr>c_is_list := Some (is_list_body r)\<rparr>))
        \<and> (c_is_connection f = None \<longrightarrow>
           field_is_connection H f
             = Inr (is_connection_body r,
                    f'\<lparr>c_is_connection := Some (is_connection_body r)\<rparr>))
        \<and> field_is_relation f' = field_is_relation f"
    using resolve_type_keeps_relation [of H f r f']
    by (simp add: field_is_optional_def field_is_list_def field_is_connection_def
        field_is_relation_def field_type_def)
  from a b c d show ?thesis by blast
qed

theorem shape_properties_witness:
  "field_type example_helpers (declared_field BookModel ''editor'' StrawberryAuto)
     = Inr (Resolved (StrawberryOptional (ObjectType ''DjangoModelType'' False None)),
            (declared_field BookModel ''editor'' StrawberryAuto)
              \<lparr> f_type_annotation :=
                  Some (StrawberryOptional (ObjectType ''DjangoModelType'' False None)),
                f_django_definition :=
                  Some \<lparr> dd_model = BookModel, dd_is_input = False, dd_is_partial = False,
                         dd_is_filter = FilterFlag False \<rparr>,
                f_lookups := 1 \<rparr>)
   \<and> c_is_optional (declared_field BookModel ''editor'' StrawberryAuto) = None
   \<and> field_is_optional example_helpers (declared_field BookModel ''editor'' StrawberryAuto)
     = Inr (True,
            (declared_field BookModel ''editor'' StrawberryAuto)
              \<lparr> f_type_annotation :=
                  Some (StrawberryOptional (ObjectType ''DjangoModelType'' False None)),
                f_django_definition :=
                  Some \<lparr> dd_model = BookModel, dd_is_input = False, dd_is_partial = False,
                         dd_is_filter = FilterFlag False \<rparr>,
                f_lookups := 1, c_is_optional := Some True \<rparr>)"
proof -
  let ?dd = "\<lparr> dd_model = BookModel, dd_is_input = False, dd_is_partial = False,
                         dd_is_filter = FilterFlag False \<rparr>"
  let ?f = "declared_field BookModel ''editor'' StrawberryAuto"
  let ?f1 = "?f\<lparr>f_django_definition := Some ?dd\<rparr>"
  let ?attr = "ModelField ''editor'' True False False False True
            (Some (ModelField ''id'' False False True True False None))"
  let ?T = "ObjectType ''DjangoModelType'' False None"
  let ?f' = "?f\<lparr> f_type_annotation := Some (StrawberryOptional ?T),
                f_django_definition := Some ?dd, f_lookups := 1 \<rparr>"
  have 1: "f_type_annotation ?f = Some StrawberryAuto" by (simp add: declared_field_def)
  have 2: "placeholder StrawberryAuto" by (simp add: placeholder_def)
  have 3: "django_definition ?f = (Some ?dd, ?f1)"
    by (simp add: django_definition_def declared_field_def)
  have 4: "get_model_field example_helpers (dd_model ?dd) (lookup_name ?f1) = Some ?attr"
    by (simp add: ex_defs lookup_name_def)
  have 5: "resolve_model_field_type example_helpers
             (type_source (f_python_name ?f1) ?attr) (dd_info ?dd) = Inr ?T"
    by (simp add: ex_defs type_source_def endswith_def)
  have 6: "\<not> placeholder ?T" by (simp add: placeholder_def)
  have a: "field_type example_helpers ?f = Inr (Resolved (StrawberryOptional ?T), ?f')"
    using resolve_depth_consult_ok [OF 1 2 3 4 5 6, of 998]
    by (simp add: field_type_def resolve_type_def example_limit wrap_optional_def
        spec_is_optional_def example_helpers_def declared_field_def)
  have b: "c_is_optional ?f = None" by (simp add: declared_field_def)
  from shape_properties [of "Resolved (StrawberryOptional ?T)" example_helpers ?f ?f'] a b
  show ?thesis by simp
qed

end
